theory Spec2Isabelle
  imports Main "HOL-Library.AList"
begin

section \<open>The flood-forecast input form (src/src/App.tsx)\<close>

text \<open>
  The component keeps four pieces of state that matter here: \<open>formData\<close>, \<open>isSubmitting\<close>,
  \<open>submitStatus\<close> and \<open>errors\<close>. Its handlers are embedded below as functions from state
  to state. JavaScript objects are association lists in property order, the library parsers
  (\<open>JSON.parse\<close>, \<open>Papa.parse\<close>) and the number-to-text conversion are parameters, and the
  two \<open>setTimeout\<close> delays are entries of a timer list that \<open>tick\<close> counts down one
  millisecond at a time. The state variables \<open>importMode\<close> and \<open>showPreview\<close> only choose
  what is rendered and are left out. An import is modelled from the moment the file's text
  has been read: the handler together with the callback it registered is one step.
\<close>

subsection \<open>FormData and initialData\<close>

text \<open>
  A \<open>FormData\<close> object: its own properties, in property order. All values are strings.
\<close>

type_synonym FormData = "(string \<times> string) list"

definition initialData :: FormData where
  "initialData =
    [(''rainfall_intensity'', ''''),
     (''rainfall_accumulation'', ''''),
     (''temperature'', ''''),
     (''humidity'', ''''),
     (''wind_speed'', ''''),
     (''river_level'', ''''),
     (''river_discharge'', ''''),
     (''soil_moisture'', ''''),
     (''groundwater_level'', ''''),
     (''elevation'', ''''),
     (''slope'', ''''),
     (''land_use'', ''''),
     (''soil_type'', ''''),
     (''sat_rainfall'', ''''),
     (''sat_soil_moisture'', ''''),
     (''drone_image'', ''''),
     (''iot_river_level'', ''''),
     (''iot_river_flow'', ''''),
     (''iot_temp'', ''''),
     (''iot_humidity'', ''''),
     (''iot_wind'', ''''),
     (''past_flood'', ''no''),
     (''flood_severity'', ''''),
     (''flood_duration'', '''')]"

text \<open>The schema: the keys of \<open>initialData\<close>.\<close>

definition schema_keys :: "string list" where
  "schema_keys = map fst initialData"

subsection \<open>JavaScript property access on plain objects\<close>

text \<open>
  \<open>initialData\<close> and \<open>mappedData\<close> are plain objects, so their prototype is
  \<open>Object.prototype\<close>. These are the property names \<open>Object.prototype\<close> itself carries.
\<close>

definition Object_prototype_keys :: "string list" where
  "Object_prototype_keys =
    [''constructor'', ''__defineGetter__'', ''__defineSetter__'', ''hasOwnProperty'',
     ''__lookupGetter__'', ''__lookupSetter__'', ''isPrototypeOf'', ''propertyIsEnumerable'',
     ''toString'', ''valueOf'', ''__proto__'', ''toLocaleString'']"

text \<open>
  \<open>key in obj\<close>: true for an own property and for one found on the prototype chain.
\<close>

definition js_in :: "string \<Rightarrow> FormData \<Rightarrow> bool" where
  "js_in key obj \<longleftrightarrow> key \<in> set (map fst obj) \<or> key \<in> set Object_prototype_keys"

text \<open>
  \<open>obj[key] = v\<close> for a string \<open>v\<close>. An existing own property is overwritten in place, a new
  one is appended. The one exception is \<open>__proto__\<close>: the assignment reaches the accessor of
  \<open>Object.prototype\<close>, whose setter ignores a value that is neither an object nor null
  (\<open>mappedData\<close> never has an own property of that name).
\<close>

definition js_set :: "FormData \<Rightarrow> string \<Rightarrow> string \<Rightarrow> FormData" where
  "js_set obj key v = (if key = ''__proto__'' then obj else AList.update key v obj)"

subsection \<open>Parsed values and String(...)\<close>

text \<open>
  A value as \<open>JSON.parse\<close> returns it. \<open>'n\<close> is the type of numbers; an object lists its own
  properties in the order \<open>Object.keys\<close> enumerates them.
\<close>

datatype 'n jsvalue =
    JNull
  | JBool bool
  | JNum 'n
  | JStr string
  | JArr "'n jsvalue list"
  | JObj "(string \<times> 'n jsvalue) list"

fun join :: "string \<Rightarrow> string list \<Rightarrow> string" where
  "join sep [] = []"
| "join sep [x] = x"
| "join sep (x # y # ys) = x @ sep @ join sep (y # ys)"

text \<open>
  \<open>String(v)\<close>; \<open>None\<close> is the TypeError "Cannot convert object to primitive value".
  An array is converted by \<open>Array.prototype.join\<close>, which writes null elements as the empty
  string. A plain object is converted by the inherited \<open>Object.prototype.toString\<close>, unless
  it has an own property \<open>toString\<close>: that property is parsed data, not a function, the
  fallback \<open>valueOf\<close> yields no primitive either, and the conversion throws.
\<close>

fun jsString :: "('n \<Rightarrow> string) \<Rightarrow> 'n jsvalue \<Rightarrow> string option" where
  "jsString numberToString JNull = Some ''null''"
| "jsString numberToString (JBool b) = Some (if b then ''true'' else ''false'')"
| "jsString numberToString (JNum n) = Some (numberToString n)"
| "jsString numberToString (JStr s) = Some s"
| "jsString numberToString (JArr xs) =
     map_option (join '','')
       (those (map (\<lambda>x. case x of JNull \<Rightarrow> Some [] | _ \<Rightarrow> jsString numberToString x) xs))"
| "jsString numberToString (JObj kvs) =
     (if ''toString'' \<in> set (map fst kvs) then None else Some ''[object Object]'')"

text \<open>Decimal text of an array index.\<close>

fun decimal :: "nat \<Rightarrow> string" where
  "decimal n =
     (if n < 10 then [''0123456789'' ! n]
      else decimal (n div 10) @ [''0123456789'' ! (n mod 10)])"

text \<open>
  The pairs \<open>(key, json[key])\<close> for \<open>key\<close> in \<open>Object.keys(json)\<close>. \<open>Object.keys\<close> throws a
  TypeError on null (\<open>None\<close>), sees no keys on a number or a boolean, and sees the indices
  of a string or an array.
\<close>

fun own_entries :: "'n jsvalue \<Rightarrow> (string \<times> 'n jsvalue) list option" where
  "own_entries JNull = None"
| "own_entries (JBool b) = Some []"
| "own_entries (JNum n) = Some []"
| "own_entries (JStr s) = Some (zip (map decimal [0..<length s]) (map (\<lambda>c. JStr [c]) s))"
| "own_entries (JArr xs) = Some (zip (map decimal [0..<length xs]) xs)"
| "own_entries (JObj kvs) = Some kvs"

declare decimal.simps [simp del]

subsection \<open>What PapaParse hands to the callbacks\<close>

text \<open>
  With \<open>header: true\<close> and no dynamic typing, a row of \<open>results.data\<close> is an object whose
  values are the cell texts; cells beyond the header are collected into one array under the
  key \<open>__parsed_extra\<close>. The handler reads \<open>results.data\<close> only; \<open>results.meta\<close> is
  left out.
\<close>

datatype PapaField = Cell string | ParsedExtra "string list"

type_synonym PapaRow = "(string \<times> PapaField) list"

text \<open>
  \<open>Complete\<close> is the call of \<open>complete(results)\<close>, with \<open>results.data\<close> and the codes of
  the structural errors listed in \<open>results.errors\<close> (such as TooManyFields); \<open>Failed\<close> is
  the call of \<open>error\<close>.
\<close>

datatype PapaResult = Complete "PapaRow list" "string list" | Failed

fun fieldString :: "PapaField \<Rightarrow> string" where
  "fieldString (Cell s) = s"
| "fieldString (ParsedExtra xs) = join '','' xs"

subsection \<open>The two copies of the key-mapping loop\<close>

text \<open>
  \<open>Object.keys(json).forEach(key => { if (key in initialData) mappedData[key] = String(json[key]) })\<close>
  on the JSON path. \<open>None\<close>: the conversion threw. Only a value whose key passes the test is
  converted.
\<close>

fun mapJson :: "('n \<Rightarrow> string) \<Rightarrow> (string \<times> 'n jsvalue) list \<Rightarrow> FormData \<Rightarrow> FormData option" where
  "mapJson numberToString [] mappedData = Some mappedData"
| "mapJson numberToString ((key, v) # rest) mappedData =
     (if js_in key initialData
      then (case jsString numberToString v of
              None \<Rightarrow> None
            | Some s \<Rightarrow> mapJson numberToString rest (js_set mappedData key s))
      else mapJson numberToString rest mappedData)"

text \<open>The same loop over \<open>Object.keys(row)\<close> on the CSV path; nothing there can throw.\<close>

fun mapRow :: "PapaRow \<Rightarrow> FormData \<Rightarrow> FormData" where
  "mapRow [] mappedData = mappedData"
| "mapRow ((key, v) # rest) mappedData =
     (if js_in key initialData
      then mapRow rest (js_set mappedData key (fieldString v))
      else mapRow rest mappedData)"

text \<open>
  The body of the \<open>try\<close> block, given what \<open>JSON.parse\<close> did (\<open>None\<close>: it threw a
  SyntaxError). The result is the \<open>mappedData\<close> passed to \<open>setFormData\<close>, or \<open>None\<close> when
  control reaches the \<open>catch\<close> clause.
\<close>

definition jsonImport :: "('n \<Rightarrow> string) \<Rightarrow> 'n jsvalue option \<Rightarrow> FormData option" where
  "jsonImport numberToString parsed =
     (case parsed of
        None \<Rightarrow> None
      | Some json \<Rightarrow>
          (case own_entries json of
             None \<Rightarrow> None
           | Some kvs \<Rightarrow> mapJson numberToString kvs initialData))"

subsection \<open>The file extension\<close>

text \<open>\<open>s.split('.')\<close>, for any separator character: never empty.\<close>

fun split :: "char \<Rightarrow> string \<Rightarrow> string list" where
  "split sep [] = [[]]"
| "split sep (c # cs) =
     (if c = sep then [] # split sep cs
      else (case split sep cs of [] \<Rightarrow> [[c]] | w # ws \<Rightarrow> (c # w) # ws))"

text \<open>
  \<open>toLowerCase\<close> on the characters of a file name: the letters A to Z move to a to z,
  every other byte stays. (No character outside A-Z lower-cases to a letter of
  \<open>json\<close> or \<open>csv\<close>, so the comparison below is the one the browser makes.)
\<close>

definition toLowerChar :: "char \<Rightarrow> char" where
  "toLowerChar c =
     (case map_of (zip ''ABCDEFGHIJKLMNOPQRSTUVWXYZ'' ''abcdefghijklmnopqrstuvwxyz'') c of
        Some lower \<Rightarrow> lower
      | None \<Rightarrow> c)"

definition toLowerCase :: "string \<Rightarrow> string" where
  "toLowerCase s = map toLowerChar s"

text \<open>\<open>file.name.split('.').pop()?.toLowerCase()\<close>\<close>

definition extension :: "string \<Rightarrow> string" where
  "extension file_name = toLowerCase (last (split CHR ''.'' file_name))"

subsection \<open>Component state\<close>

datatype SubmitStatus = Idle | Sending | Success

text \<open>
  What a pending \<open>setTimeout\<close> will run: the rest of \<open>handleSubmit\<close> after its \<open>await\<close>, or
  the reset to idle.
\<close>

datatype Timer = ResumeSubmit | ResetIdle

record AppState =
  formData :: FormData
  isSubmitting :: bool
  submitStatus :: SubmitStatus
  errors :: "string list"
  timers :: "(nat \<times> Timer) list"

definition initialState :: AppState where
  "initialState =
     \<lparr>formData = initialData, isSubmitting = False, submitStatus = Idle, errors = [],
      timers = []\<rparr>"

record File =
  file_name :: string
  file_text :: string

subsection \<open>handleInputChange\<close>

definition handleInputChange :: "string \<Rightarrow> string \<Rightarrow> AppState \<Rightarrow> AppState" where
  "handleInputChange field_name v st = st\<lparr>formData := AList.update field_name v (formData st)\<rparr>"

subsection \<open>validateForm\<close>

definition requiredFields :: "string list" where
  "requiredFields =
     [''rainfall_intensity'', ''temperature'', ''river_level'', ''elevation'', ''land_use'']"

text \<open>\<open>field.replace(/_/g, ' ')\<close>\<close>

definition replace_underscores :: "string \<Rightarrow> string" where
  "replace_underscores s = map (\<lambda>c. if c = CHR ''_'' then CHR '' '' else c) s"

text \<open>\<open>!formData[field]\<close>: a missing property (undefined) and the empty string are falsy.\<close>

definition falsy :: "string option \<Rightarrow> bool" where
  "falsy v = (case v of None \<Rightarrow> True | Some s \<Rightarrow> s = [])"

definition newErrors :: "FormData \<Rightarrow> string list" where
  "newErrors fd =
     concat (map (\<lambda>field. if falsy (map_of fd field)
                           then [replace_underscores field @ '' is required''] else [])
               requiredFields)"

text \<open>\<open>validateForm\<close> stores the list it built and returns whether it is empty.\<close>

definition validateForm :: "AppState \<Rightarrow> bool \<times> AppState" where
  "validateForm st = (newErrors (formData st) = [], st\<lparr>errors := newErrors (formData st)\<rparr>)"

subsection \<open>handleSubmit and its timers\<close>

text \<open>\<open>handleSubmit\<close> up to its \<open>await\<close>.\<close>

definition handleSubmit :: "AppState \<Rightarrow> AppState" where
  "handleSubmit st =
     (case validateForm st of
        (ok, st1) \<Rightarrow>
          if \<not> ok then st1
          else st1\<lparr>isSubmitting := True, submitStatus := Sending,
                   timers := timers st1 @ [(5000, ResumeSubmit)]\<rparr>)"

text \<open>What runs when a timer expires.\<close>

fun fire :: "Timer \<Rightarrow> AppState \<Rightarrow> AppState" where
  "fire ResumeSubmit st =
     st\<lparr>submitStatus := Success, isSubmitting := False,
        timers := timers st @ [(5000, ResetIdle)]\<rparr>"
| "fire ResetIdle st = st\<lparr>submitStatus := Idle\<rparr>"

text \<open>One millisecond passes: every timer counts down, the expired ones run in order.\<close>

definition tick :: "AppState \<Rightarrow> AppState" where
  "tick st =
     (let counted = map (\<lambda>(remaining, t). (remaining - 1, t)) (timers st);
          due = map snd (filter (\<lambda>(remaining, t). remaining = 0) counted);
          pending = filter (\<lambda>(remaining, t). remaining \<noteq> 0) counted
      in fold fire due (st\<lparr>timers := pending\<rparr>))"

definition elapse :: "nat \<Rightarrow> AppState \<Rightarrow> AppState" where
  "elapse ms st = (tick ^^ ms) st"

text \<open>The submit button: \<open>disabled={isSubmitting || submitStatus === 'success'}\<close>.\<close>

definition submitDisabled :: "AppState \<Rightarrow> bool" where
  "submitDisabled st \<longleftrightarrow> isSubmitting st \<or> submitStatus st = Success"

text \<open>
  The user activates the submit control. A disabled button submits nothing, so
  \<open>handleSubmit\<close> runs only when the button is enabled.
\<close>

definition submitClicked :: "AppState \<Rightarrow> AppState" where
  "submitClicked st = (if submitDisabled st then st else handleSubmit st)"

subsection \<open>handleFileUpload\<close>

text \<open>
  \<open>reader.onload\<close>: the \<open>try\<close> block and its \<open>catch\<close>, given the text that was read.
\<close>

definition onload ::
  "('n \<Rightarrow> string) \<Rightarrow> (string \<Rightarrow> 'n jsvalue option) \<Rightarrow> string \<Rightarrow> AppState \<Rightarrow> AppState" where
  "onload numberToString JSON_parse text st =
     (case jsonImport numberToString (JSON_parse text) of
        Some mappedData \<Rightarrow> st\<lparr>formData := mappedData, errors := []\<rparr>
      | None \<Rightarrow> st\<lparr>errors := [''Invalid JSON file format'']\<rparr>)"

text \<open>PapaParse's \<open>complete\<close> callback, given \<open>results.data\<close>, the one part of \<open>results\<close> it reads.\<close>

definition complete :: "PapaRow list \<Rightarrow> AppState \<Rightarrow> AppState" where
  "complete rows st =
     (case rows of
        row # later \<Rightarrow> st\<lparr>formData := mapRow row initialData, errors := []\<rparr>
      | [] \<Rightarrow> st\<lparr>errors := [''CSV file is empty or invalid'']\<rparr>)"

text \<open>PapaParse's \<open>error\<close> callback.\<close>

definition parse_error :: "AppState \<Rightarrow> AppState" where
  "parse_error st = st\<lparr>errors := [''Error parsing CSV file'']\<rparr>"

text \<open>
  The handler together with the callback it registers, as one step. \<open>JSON_parse\<close> and
  \<open>Papa_parse\<close> are the library parsers applied to the file's text; \<open>None\<close> for the file
  is an empty selection.
\<close>

definition handleFileUpload ::
  "('n \<Rightarrow> string) \<Rightarrow> (string \<Rightarrow> 'n jsvalue option) \<Rightarrow> (string \<Rightarrow> PapaResult) \<Rightarrow>
   File option \<Rightarrow> AppState \<Rightarrow> AppState" where
  "handleFileUpload numberToString JSON_parse Papa_parse selected st =
     (case selected of
        None \<Rightarrow> st
      | Some file \<Rightarrow>
          if extension (file_name file) = ''json'' then
            onload numberToString JSON_parse (file_text file) st
          else if extension (file_name file) = ''csv'' then
            (case Papa_parse (file_text file) of
               Complete rows parse_errors \<Rightarrow> complete rows st
             | Failed \<Rightarrow> parse_error st)
          else st\<lparr>errors := [''Unsupported file type. Please use JSON or CSV.'']\<rparr>)"

text \<open>The close button of the error box: \<open>setErrors([])\<close>.\<close>

definition dismissErrors :: "AppState \<Rightarrow> AppState" where
  "dismissErrors st = st\<lparr>errors := []\<rparr>"

subsection \<open>Events\<close>

datatype Event =
    InputChange string string
  | FileSelected "File option"
  | SubmitClicked
  | ErrorsDismissed
  | Tick

fun step ::
  "('n \<Rightarrow> string) \<Rightarrow> (string \<Rightarrow> 'n jsvalue option) \<Rightarrow> (string \<Rightarrow> PapaResult) \<Rightarrow>
   Event \<Rightarrow> AppState \<Rightarrow> AppState" where
  "step ns jp pp (InputChange field_name v) st = handleInputChange field_name v st"
| "step ns jp pp (FileSelected selected) st = handleFileUpload ns jp pp selected st"
| "step ns jp pp SubmitClicked st = submitClicked st"
| "step ns jp pp ErrorsDismissed st = dismissErrors st"
| "step ns jp pp Tick st = tick st"

text \<open>The state after a sequence of events, from the initial render.\<close>

definition run ::
  "('n \<Rightarrow> string) \<Rightarrow> (string \<Rightarrow> 'n jsvalue option) \<Rightarrow> (string \<Rightarrow> PapaResult) \<Rightarrow>
   Event list \<Rightarrow> AppState" where
  "run ns jp pp evs = fold (step ns jp pp) evs initialState"

subsection \<open>Well-formed form data\<close>

text \<open>The object has every property the \<open>FormData\<close> interface declares.\<close>

definition is_FormData :: "FormData \<Rightarrow> bool" where
  "is_FormData fd \<longleftrightarrow> set schema_keys \<subseteq> set (map fst fd)"


text \<open>
  The messages an import can fail with, by extension: the JSON path has one, the CSV path
  one for each of its two failing callbacks, every other extension the unsupported-type
  message.
\<close>

definition failure_messages :: "string \<Rightarrow> string list" where
  "failure_messages ext =
     (if ext = ''json'' then [''Invalid JSON file format'']
      else if ext = ''csv'' then [''CSV file is empty or invalid'', ''Error parsing CSV file'']
      else [''Unsupported file type. Please use JSON or CSV.''])"

subsection \<open>Values that String(...) cannot convert\<close>

text \<open>
  An object with an own property \<open>toString\<close>, directly or as an element of an array (at any
  depth of arrays). Objects nested inside objects do not count: the inherited
  \<open>Object.prototype.toString\<close> does not look at the properties.
\<close>

fun unprintable :: "'n jsvalue \<Rightarrow> bool" where
  "unprintable (JObj kvs) \<longleftrightarrow> ''toString'' \<in> set (map fst kvs)"
| "unprintable (JArr xs) \<longleftrightarrow> (\<exists>x\<in>set xs. unprintable x)"
| "unprintable v \<longleftrightarrow> False"

subsection \<open>Error categories\<close>

text \<open>The four kinds of error of the specification, and the kind each message belongs to.\<close>

datatype ErrorKind = UnsupportedFormat | MalformedInput | EmptyOrMalformed | ValidationFailed

definition error_kind :: "string \<Rightarrow> ErrorKind option" where
  "error_kind m =
     (if m = ''Unsupported file type. Please use JSON or CSV.'' then Some UnsupportedFormat
      else if m = ''Invalid JSON file format'' then Some MalformedInput
      else if m = ''CSV file is empty or invalid'' \<or> m = ''Error parsing CSV file''
        then Some EmptyOrMalformed
      else if m \<in> set (map (\<lambda>field. replace_underscores field @ '' is required'') requiredFields)
        then Some ValidationFailed
      else None)"

text \<open>Every message of the list is of one and the same kind.\<close>

definition one_category :: "string list \<Rightarrow> bool" where
  "one_category es \<longleftrightarrow> (\<exists>kind. \<forall>m\<in>set es. error_kind m = Some kind)"

subsection \<open>Submit status and pending timer\<close>

text \<open>
  How the three state variables of a submission hang together: idle with no timer, sending
  with the timer that resumes \<open>handleSubmit\<close>, success with the timer that resets to idle.
\<close>

definition timer_inv :: "AppState \<Rightarrow> bool" where
  "timer_inv st \<longleftrightarrow>
     (case submitStatus st of
        Idle \<Rightarrow> \<not> isSubmitting st \<and> timers st = []
      | Sending \<Rightarrow>
          isSubmitting st \<and> (\<exists>r. 0 < r \<and> r \<le> 5000 \<and> timers st = [(r, ResumeSubmit)])
      | Success \<Rightarrow>
          \<not> isSubmitting st \<and> (\<exists>r. 0 < r \<and> r \<le> 5000 \<and> timers st = [(r, ResetIdle)]))"

section \<open>Basic facts\<close>



lemma split_nonempty: "split sep s \<noteq> []"
  by (induction s) (auto split: list.splits)

lemma split_no_sep: "sep \<notin> set s \<Longrightarrow> split sep s = [s]"
  by (induction s) auto

lemma split_append: "split sep (pre @ sep # suf) = split sep pre @ split sep suf"
  by (induction pre) (auto split: list.splits simp: split_nonempty)

lemma last_split_after_sep:
  "sep \<notin> set suf \<Longrightarrow> last (split sep (pre @ sep # suf)) = suf"
  by (simp add: split_append split_no_sep)

lemma toLowerChar_j: "toLowerChar c = CHR ''j'' \<longleftrightarrow> c = CHR ''j'' \<or> c = CHR ''J''"
  by (auto simp: toLowerChar_def)

lemma toLowerChar_s: "toLowerChar c = CHR ''s'' \<longleftrightarrow> c = CHR ''s'' \<or> c = CHR ''S''"
  by (auto simp: toLowerChar_def)

lemma toLowerChar_o: "toLowerChar c = CHR ''o'' \<longleftrightarrow> c = CHR ''o'' \<or> c = CHR ''O''"
  by (auto simp: toLowerChar_def)

lemma toLowerChar_n: "toLowerChar c = CHR ''n'' \<longleftrightarrow> c = CHR ''n'' \<or> c = CHR ''N''"
  by (auto simp: toLowerChar_def)

lemma toLowerChar_c: "toLowerChar c = CHR ''c'' \<longleftrightarrow> c = CHR ''c'' \<or> c = CHR ''C''"
  by (auto simp: toLowerChar_def)

lemma toLowerChar_v: "toLowerChar c = CHR ''v'' \<longleftrightarrow> c = CHR ''v'' \<or> c = CHR ''V''"
  by (auto simp: toLowerChar_def)


lemma map_eq_4:
  "map f e = [w, x, y, z] \<longleftrightarrow>
     (\<exists>a b c d. e = [a, b, c, d] \<and> f a = w \<and> f b = x \<and> f c = y \<and> f d = z)"
  by (simp add: map_eq_Cons_conv) blast

lemma map_eq_3:
  "map f e = [w, x, y] \<longleftrightarrow>
     (\<exists>a b c. e = [a, b, c] \<and> f a = w \<and> f b = x \<and> f c = y)"
  by (simp add: map_eq_Cons_conv) blast

lemma toLowerCase_json_iff:
  "toLowerCase e = ''json'' \<longleftrightarrow>
     (\<exists>a b c d. e = [a, b, c, d] \<and> a \<in> {CHR ''j'', CHR ''J''} \<and> b \<in> {CHR ''s'', CHR ''S''} \<and>
        c \<in> {CHR ''o'', CHR ''O''} \<and> d \<in> {CHR ''n'', CHR ''N''})"
  unfolding toLowerCase_def map_eq_4
  by (simp only: toLowerChar_j toLowerChar_s toLowerChar_o toLowerChar_n insert_iff empty_iff simp_thms)

lemma toLowerCase_csv_iff:
  "toLowerCase e = ''csv'' \<longleftrightarrow>
     (\<exists>a b c. e = [a, b, c] \<and> a \<in> {CHR ''c'', CHR ''C''} \<and> b \<in> {CHR ''s'', CHR ''S''} \<and>
        c \<in> {CHR ''v'', CHR ''V''})"
  unfolding toLowerCase_def map_eq_3
  by (simp only: toLowerChar_c toLowerChar_s toLowerChar_v insert_iff empty_iff simp_thms)

lemma required_keys_present:
  assumes "is_FormData fd" and "k \<in> set requiredFields"
  shows "map_of fd k \<noteq> None"
  using assms
  by (auto simp: is_FormData_def schema_keys_def initialData_def requiredFields_def
      map_of_eq_None_iff)

lemma newErrors_filter:
  assumes "is_FormData fd"
  shows "newErrors fd =
     map (\<lambda>field. replace_underscores field @ '' is required'')
       (filter (\<lambda>field. the (map_of fd field) = []) requiredFields)"
proof -
  have "falsy (map_of fd k) = (the (map_of fd k) = [])" if "k \<in> set requiredFields" for k
    using required_keys_present[OF assms that] by (auto simp: falsy_def)
  then have "map (\<lambda>field. if falsy (map_of fd field)
                           then [replace_underscores field @ '' is required''] else [])
               requiredFields
     = map (\<lambda>field. if the (map_of fd field) = []
                           then [replace_underscores field @ '' is required''] else [])
               requiredFields"
    by simp
  then show ?thesis
    unfolding newErrors_def by (simp add: requiredFields_def)
qed

lemma required_messages:
  "map (\<lambda>field. replace_underscores field @ '' is required'') requiredFields =
     [''rainfall intensity is required'', ''temperature is required'',
      ''river level is required'', ''elevation is required'', ''land use is required'']"
  by (simp add: requiredFields_def replace_underscores_def)

lemma is_FormData_initialData: "is_FormData initialData"
  by (simp add: is_FormData_def schema_keys_def)

lemma is_FormData_update: "is_FormData fd \<Longrightarrow> is_FormData (AList.update k v fd)"
  by (auto simp: is_FormData_def update_keys)

section \<open>The validator\<close>

text \<open>
  C4. For every FormData object, \<open>validateForm\<close> stores exactly the messages of the required
  fields whose value is the empty string, in the order rainfall_intensity, temperature,
  river_level, elevation, land_use; a message is the field name with underscores replaced
  by spaces followed by " is required"; it returns true exactly when that list is empty.
  Nothing is trimmed, so a field holding only white space is not reported, and with all
  five fields empty the list is the five messages in that order.
\<close>

theorem validateForm_reports_empty_required_fields:
  assumes "is_FormData (formData st)"
  shows "validateForm st =
           (filter (\<lambda>field. the (map_of (formData st) field) = []) requiredFields = [],
            st\<lparr>errors :=
                 map (\<lambda>field. replace_underscores field @ '' is required'')
                   (filter (\<lambda>field. the (map_of (formData st) field) = []) requiredFields)\<rparr>)
         \<and> requiredFields =
             [''rainfall_intensity'', ''temperature'', ''river_level'', ''elevation'', ''land_use'']
         \<and> map (\<lambda>field. replace_underscores field @ '' is required'') requiredFields =
             [''rainfall intensity is required'', ''temperature is required'',
              ''river level is required'', ''elevation is required'', ''land use is required'']"
  using newErrors_filter[OF assms] required_messages
  by (simp add: validateForm_def requiredFields_def)

lemma filter_required_initialData:
  "filter (\<lambda>field. the (map_of initialData field) = []) requiredFields = requiredFields"
  by (simp add: initialData_def requiredFields_def)

lemma filter_required_blank_temperature:
  "filter (\<lambda>field. the (map_of (AList.update ''temperature'' '' '' initialData) field) = [])
     requiredFields
   = [''rainfall_intensity'', ''river_level'', ''elevation'', ''land_use'']"
  by (simp add: initialData_def requiredFields_def)

theorem validateForm_reports_empty_required_fields_witness:
  "is_FormData (formData initialState)
   \<and> validateForm initialState =
       (False, initialState\<lparr>errors :=
          [''rainfall intensity is required'', ''temperature is required'',
           ''river level is required'', ''elevation is required'', ''land use is required'']\<rparr>)
   \<and> is_FormData (AList.update ''temperature'' '' '' initialData)
   \<and> validateForm (initialState\<lparr>formData := AList.update ''temperature'' '' '' initialData\<rparr>) =
       (False, initialState\<lparr>formData := AList.update ''temperature'' '' '' initialData,
          errors :=
          [''rainfall intensity is required'',
           ''river level is required'', ''elevation is required'', ''land use is required'']\<rparr>)"
proof -
  let ?st = "initialState\<lparr>formData := AList.update ''temperature'' '' '' initialData\<rparr>"
  have a: "is_FormData (formData initialState)"
    by (simp add: initialState_def is_FormData_initialData)
  have b: "is_FormData (formData ?st)"
    by (simp add: is_FormData_update is_FormData_initialData)
  have fa: "formData initialState = initialData"
    by (simp add: initialState_def)
  have fb: "formData ?st = AList.update ''temperature'' '' '' initialData"
    by simp
  have va: "validateForm initialState =
       (False, initialState\<lparr>errors :=
          [''rainfall intensity is required'', ''temperature is required'',
           ''river level is required'', ''elevation is required'', ''land use is required'']\<rparr>)"
    using validateForm_reports_empty_required_fields[OF a, THEN conjunct1]
    unfolding fa filter_required_initialData
    by (simp add: requiredFields_def replace_underscores_def)
  have vb: "validateForm ?st =
       (False, ?st\<lparr>errors :=
          [''rainfall intensity is required'',
           ''river level is required'', ''elevation is required'', ''land use is required'']\<rparr>)"
    using validateForm_reports_empty_required_fields[OF b, THEN conjunct1]
    unfolding fb filter_required_blank_temperature
    by (simp add: replace_underscores_def)
  show ?thesis
    using a b va vb by simp
qed

section \<open>The file extension and the dispatch\<close>

lemma extension_no_dot: "CHR ''.'' \<notin> set n \<Longrightarrow> extension n = toLowerCase n"
  by (simp add: extension_def split_no_sep)

lemma extension_after_dot:
  "CHR ''.'' \<notin> set suf \<Longrightarrow> extension (pre @ CHR ''.'' # suf) = toLowerCase suf"
  by (simp add: extension_def last_split_after_sep)

text \<open>
  C10. The extension used for the dispatch is the text after the last dot of the file name,
  lower-cased; a name without a dot is its own extension. So a file named just "json" or
  "csv" (in any letter case) is handed to that parser, and every other dotless name is
  rejected as unsupported.
\<close>

theorem extension_is_text_after_last_dot:
  "(CHR ''.'' \<notin> set suf \<longrightarrow> extension (pre @ CHR ''.'' # suf) = toLowerCase suf)
   \<and> (CHR ''.'' \<notin> set (file_name f) \<longrightarrow>
        extension (file_name f) = toLowerCase (file_name f)
        \<and> handleFileUpload ns jp pp (Some f) st =
            (if toLowerCase (file_name f) = ''json'' then onload ns jp (file_text f) st
             else if toLowerCase (file_name f) = ''csv'' then
               (case pp (file_text f) of
                  Complete rows parse_errors \<Rightarrow> complete rows st
                | Failed \<Rightarrow> parse_error st)
             else st\<lparr>errors := [''Unsupported file type. Please use JSON or CSV.'']\<rparr>))"
  by (simp add: extension_after_dot extension_no_dot handleFileUpload_def)

theorem extension_is_text_after_last_dot_witness:
  \<open>CHR ''.'' \<notin> set ''JSON'' \<and> extension (''flood.2024'' @ CHR ''.'' # ''JSON'') = ''json''
   \<and> CHR ''.'' \<notin> set ''csv''
   \<and> handleFileUpload (\<lambda>n::nat. decimal n) (\<lambda>text. None) (\<lambda>text. Complete [] [])
        (Some \<lparr>file_name = ''csv'', file_text = ''''\<rparr>) initialState
      = initialState\<lparr>errors := [''CSV file is empty or invalid'']\<rparr>
   \<and> CHR ''.'' \<notin> set ''notes''
   \<and> handleFileUpload (\<lambda>n::nat. decimal n) (\<lambda>text. None) (\<lambda>text. Complete [] [])
        (Some \<lparr>file_name = ''notes'', file_text = ''''\<rparr>) initialState
      = initialState\<lparr>errors := [''Unsupported file type. Please use JSON or CSV.'']\<rparr>
   \<and> handleFileUpload (\<lambda>n::nat. decimal n)
        (\<lambda>text. Some (JObj [(''elevation'', JStr ''120'')])) (\<lambda>text. Failed)
        (Some \<lparr>file_name = ''JSON'', file_text = ''{"elevation":"120"}''\<rparr>) initialState
      = initialState\<lparr>formData := AList.update ''elevation'' ''120'' initialData\<rparr>\<close>
proof -
  have l1: "toLowerCase ''JSON'' = ''json''" and l2: "toLowerCase ''csv'' = ''csv''"
    and l3: "toLowerCase ''notes'' = ''notes''"
    by (simp_all add: toLowerCase_def toLowerChar_def)
  have a: "extension (''flood.2024'' @ CHR ''.'' # ''JSON'') = ''json''"
    using extension_is_text_after_last_dot[where suf="''JSON''" and pre="''flood.2024''",
        THEN conjunct1]
    by (simp add: l1)
  have b: "handleFileUpload (\<lambda>n::nat. decimal n) (\<lambda>text. None) (\<lambda>text. Complete [] [])
        (Some \<lparr>file_name = ''csv'', file_text = ''''\<rparr>) initialState
      = initialState\<lparr>errors := [''CSV file is empty or invalid'']\<rparr>"
    using extension_is_text_after_last_dot[where f="\<lparr>file_name = ''csv'', file_text = ''''\<rparr>"
        and ns="\<lambda>n::nat. decimal n" and jp="\<lambda>text. None" and pp="\<lambda>text. Complete [] []"
        and st=initialState, THEN conjunct2]
    by (simp add: l2 complete_def)
  have c: "handleFileUpload (\<lambda>n::nat. decimal n) (\<lambda>text. None) (\<lambda>text. Complete [] [])
        (Some \<lparr>file_name = ''notes'', file_text = ''''\<rparr>) initialState
      = initialState\<lparr>errors := [''Unsupported file type. Please use JSON or CSV.'']\<rparr>"
    using extension_is_text_after_last_dot[where f="\<lparr>file_name = ''notes'', file_text = ''''\<rparr>"
        and ns="\<lambda>n::nat. decimal n" and jp="\<lambda>text. None" and pp="\<lambda>text. Complete [] []"
        and st=initialState, THEN conjunct2]
    by (simp add: l3)
  have i: "js_in ''elevation'' initialData"
    by (simp add: js_in_def initialData_def)
  have j: "jsonImport (\<lambda>n::nat. decimal n) (Some (JObj [(''elevation'', JStr ''120'')]))
      = Some (AList.update ''elevation'' ''120'' initialData)"
    by (simp add: jsonImport_def i js_set_def)
  have d: \<open>handleFileUpload (\<lambda>n::nat. decimal n)
        (\<lambda>text. Some (JObj [(''elevation'', JStr ''120'')])) (\<lambda>text. Failed)
        (Some \<lparr>file_name = ''JSON'', file_text = ''{"elevation":"120"}''\<rparr>) initialState
      = initialState\<lparr>formData := AList.update ''elevation'' ''120'' initialData\<rparr>\<close>
    using extension_is_text_after_last_dot[where ns="\<lambda>n::nat. decimal n"
        and jp="\<lambda>text. Some (JObj [(''elevation'', JStr ''120'')])" and pp="\<lambda>text. Failed"
        and st=initialState
        and f=\<open>\<lparr>file_name = ''JSON'', file_text = ''{"elevation":"120"}''\<rparr>\<close>,
        THEN conjunct2]
    by (simp add: l1 onload_def j initialState_def)
  show ?thesis
    using a b c d by simp
qed

text \<open>
  C7. The extension is compared after lower-casing, so "json" and "csv" are recognised in
  any letter case. A json file goes to \<open>onload\<close> (which calls \<open>JSON.parse\<close> only, and
  whose outcome is decided by what \<open>JSON.parse\<close> returns), a csv file to the PapaParse
  callbacks (\<open>JSON.parse\<close> is not called), and with any other extension the handler stores
  the unsupported-type error and consults neither parser.
\<close>

theorem handleFileUpload_dispatches_on_extension:
  "extension (file_name f) = toLowerCase (last (split CHR ''.'' (file_name f)))
   \<and> (toLowerCase e = ''json'' \<longleftrightarrow>
        (\<exists>a b c d. e = [a, b, c, d] \<and> a \<in> {CHR ''j'', CHR ''J''} \<and> b \<in> {CHR ''s'', CHR ''S''} \<and>
           c \<in> {CHR ''o'', CHR ''O''} \<and> d \<in> {CHR ''n'', CHR ''N''}))
   \<and> (toLowerCase e = ''csv'' \<longleftrightarrow>
        (\<exists>a b c. e = [a, b, c] \<and> a \<in> {CHR ''c'', CHR ''C''} \<and> b \<in> {CHR ''s'', CHR ''S''} \<and>
           c \<in> {CHR ''v'', CHR ''V''}))
   \<and> (extension (file_name f) = ''json'' \<longrightarrow>
        handleFileUpload ns jp pp (Some f) st = onload ns jp (file_text f) st)
   \<and> (extension (file_name f) = ''csv'' \<longrightarrow>
        handleFileUpload ns jp pp (Some f) st =
          (case pp (file_text f) of Complete rows parse_errors \<Rightarrow> complete rows st | Failed \<Rightarrow> parse_error st))
   \<and> (extension (file_name f) \<noteq> ''json'' \<and> extension (file_name f) \<noteq> ''csv'' \<longrightarrow>
        handleFileUpload ns jp pp (Some f) st =
          st\<lparr>errors := [''Unsupported file type. Please use JSON or CSV.'']\<rparr>)
   \<and> (extension (file_name f) = ''json'' \<longrightarrow>
        handleFileUpload ns jp pp (Some f) st =
          (case jsonImport ns (jp (file_text f)) of
             Some mappedData \<Rightarrow> st\<lparr>formData := mappedData, errors := []\<rparr>
           | None \<Rightarrow> st\<lparr>errors := [''Invalid JSON file format'']\<rparr>))"
proof -
  have "extension (file_name f) = toLowerCase (last (split CHR ''.'' (file_name f)))"
    by (simp add: extension_def)
  moreover have "extension (file_name f) = ''json'' \<longrightarrow>
        handleFileUpload ns jp pp (Some f) st =
          (case jsonImport ns (jp (file_text f)) of
             Some mappedData \<Rightarrow> st\<lparr>formData := mappedData, errors := []\<rparr>
           | None \<Rightarrow> st\<lparr>errors := [''Invalid JSON file format'']\<rparr>)"
    by (simp add: handleFileUpload_def onload_def)
  moreover have "extension (file_name f) = ''json'' \<longrightarrow>
        handleFileUpload ns jp pp (Some f) st = onload ns jp (file_text f) st"
    by (simp add: handleFileUpload_def)
  moreover have "extension (file_name f) = ''csv'' \<longrightarrow>
        handleFileUpload ns jp pp (Some f) st =
          (case pp (file_text f) of Complete rows parse_errors \<Rightarrow> complete rows st | Failed \<Rightarrow> parse_error st)"
    by (simp add: handleFileUpload_def)
  moreover have "extension (file_name f) \<noteq> ''json'' \<and> extension (file_name f) \<noteq> ''csv'' \<longrightarrow>
        handleFileUpload ns jp pp (Some f) st =
          st\<lparr>errors := [''Unsupported file type. Please use JSON or CSV.'']\<rparr>"
    by (simp add: handleFileUpload_def)
  ultimately show ?thesis
    using toLowerCase_json_iff[of e] toLowerCase_csv_iff[of e] by blast
qed

lemma extension_Data_JSON: "extension ''Data.JSON'' = ''json''"
  by (simp add: extension_def toLowerCase_def toLowerChar_def)

lemma extension_rows_Csv: "extension ''rows.Csv'' = ''csv''"
  by (simp add: extension_def toLowerCase_def toLowerChar_def)

lemma extension_notes_txt: "extension ''notes.txt'' = ''txt''"
  by (simp add: extension_def toLowerCase_def toLowerChar_def)

theorem handleFileUpload_dispatches_on_extension_witness:
  \<open>extension ''Data.JSON'' = ''json''
   \<and> handleFileUpload (\<lambda>n::nat. decimal n) (\<lambda>text. None) (\<lambda>text. Failed)
        (Some \<lparr>file_name = ''Data.JSON'', file_text = ''{''\<rparr>) initialState
      = initialState\<lparr>errors := [''Invalid JSON file format'']\<rparr>
   \<and> extension ''rows.Csv'' = ''csv''
   \<and> handleFileUpload (\<lambda>n::nat. decimal n) (\<lambda>text. None) (\<lambda>text. Failed)
        (Some \<lparr>file_name = ''rows.Csv'', file_text = ''{''\<rparr>) initialState
      = initialState\<lparr>errors := [''Error parsing CSV file'']\<rparr>
   \<and> extension ''notes.txt'' \<noteq> ''json'' \<and> extension ''notes.txt'' \<noteq> ''csv''
   \<and> handleFileUpload (\<lambda>n::nat. decimal n) (\<lambda>text. None) (\<lambda>text. Failed)
        (Some \<lparr>file_name = ''notes.txt'', file_text = ''{''\<rparr>) initialState
      = initialState\<lparr>errors := [''Unsupported file type. Please use JSON or CSV.'']\<rparr>
   \<and> handleFileUpload (\<lambda>n::nat. decimal n)
        (\<lambda>text. Some (JObj [(''elevation'', JStr ''120'')])) (\<lambda>text. Failed)
        (Some \<lparr>file_name = ''Data.JSON'', file_text = ''{"elevation":"120"}''\<rparr>) initialState
      = initialState\<lparr>formData := AList.update ''elevation'' ''120'' initialData\<rparr>\<close>
proof -
  note inst = handleFileUpload_dispatches_on_extension[where ns="\<lambda>n::nat. decimal n"
      and jp="\<lambda>text. None" and pp="\<lambda>text. Failed" and st=initialState]
  have i: "js_in ''elevation'' initialData"
    by (simp add: js_in_def initialData_def)
  have j: "jsonImport (\<lambda>n::nat. decimal n) (Some (JObj [(''elevation'', JStr ''120'')]))
      = Some (AList.update ''elevation'' ''120'' initialData)"
    by (simp add: jsonImport_def i js_set_def)
  have d: \<open>handleFileUpload (\<lambda>n::nat. decimal n)
        (\<lambda>text. Some (JObj [(''elevation'', JStr ''120'')])) (\<lambda>text. Failed)
        (Some \<lparr>file_name = ''Data.JSON'', file_text = ''{"elevation":"120"}''\<rparr>) initialState
      = initialState\<lparr>formData := AList.update ''elevation'' ''120'' initialData\<rparr>\<close>
    using handleFileUpload_dispatches_on_extension[where ns="\<lambda>n::nat. decimal n"
        and jp="\<lambda>text. Some (JObj [(''elevation'', JStr ''120'')])" and pp="\<lambda>text. Failed"
        and st=initialState
        and f=\<open>\<lparr>file_name = ''Data.JSON'', file_text = ''{"elevation":"120"}''\<rparr>\<close>,
        THEN conjunct2, THEN conjunct2, THEN conjunct2, THEN conjunct2, THEN conjunct2,
        THEN conjunct2]
    by (simp add: extension_Data_JSON j initialState_def)
  have a: "handleFileUpload (\<lambda>n::nat. decimal n) (\<lambda>text. None) (\<lambda>text. Failed)
        (Some \<lparr>file_name = ''Data.JSON'', file_text = ''{''\<rparr>) initialState
      = initialState\<lparr>errors := [''Invalid JSON file format'']\<rparr>"
    using inst[where f="\<lparr>file_name = ''Data.JSON'', file_text = ''{''\<rparr>"]
    by (simp add: extension_Data_JSON onload_def jsonImport_def)
  have b: "handleFileUpload (\<lambda>n::nat. decimal n) (\<lambda>text. None) (\<lambda>text. Failed)
        (Some \<lparr>file_name = ''rows.Csv'', file_text = ''{''\<rparr>) initialState
      = initialState\<lparr>errors := [''Error parsing CSV file'']\<rparr>"
    using inst[where f="\<lparr>file_name = ''rows.Csv'', file_text = ''{''\<rparr>"]
    by (simp add: extension_rows_Csv parse_error_def)
  have c: "handleFileUpload (\<lambda>n::nat. decimal n) (\<lambda>text. None) (\<lambda>text. Failed)
        (Some \<lparr>file_name = ''notes.txt'', file_text = ''{''\<rparr>) initialState
      = initialState\<lparr>errors := [''Unsupported file type. Please use JSON or CSV.'']\<rparr>"
    using inst[where f="\<lparr>file_name = ''notes.txt'', file_text = ''{''\<rparr>"]
    by (simp add: extension_notes_txt)
  show ?thesis
    using a b c d by (simp add: extension_Data_JSON extension_rows_Csv extension_notes_txt)
qed

section \<open>The CSV path\<close>

text \<open>
  C8. When PapaParse delivers at least one data row, only row 0 is used: the form data
  becomes \<open>initialData\<close> overlaid with that row, the error list is emptied, and the later
  rows change nothing. With no data row the form data is kept and the error
  "CSV file is empty or invalid" is stored.
\<close>

theorem csv_uses_first_row_only:
  "complete (row # later) st = st\<lparr>formData := mapRow row initialData, errors := []\<rparr>
   \<and> complete (row # later) st = complete [row] st
   \<and> complete [] st = st\<lparr>errors := [''CSV file is empty or invalid'']\<rparr>
   \<and> (extension (file_name f) = ''csv'' \<and> pp (file_text f) = Complete rows parse_errors \<longrightarrow>
        handleFileUpload ns jp pp (Some f) st = complete rows st)"
  by (simp add: complete_def handleFileUpload_def)

lemma extension_rows_csv: "extension ''rows.csv'' = ''csv''"
  by (simp add: extension_def toLowerCase_def toLowerChar_def)

lemma mapRow_example:
  "mapRow [(''rainfall_intensity'', Cell ''10''), (''temperature'', Cell ''25''),
           (''river_level'', Cell ''2.5''), (''elevation'', Cell ''100''),
           (''land_use'', Cell ''urban''), (''station'', Cell ''A7'')] initialData =
    [(''rainfall_intensity'', ''10''),
     (''rainfall_accumulation'', ''''),
     (''temperature'', ''25''),
     (''humidity'', ''''),
     (''wind_speed'', ''''),
     (''river_level'', ''2.5''),
     (''river_discharge'', ''''),
     (''soil_moisture'', ''''),
     (''groundwater_level'', ''''),
     (''elevation'', ''100''),
     (''slope'', ''''),
     (''land_use'', ''urban''),
     (''soil_type'', ''''),
     (''sat_rainfall'', ''''),
     (''sat_soil_moisture'', ''''),
     (''drone_image'', ''''),
     (''iot_river_level'', ''''),
     (''iot_river_flow'', ''''),
     (''iot_temp'', ''''),
     (''iot_humidity'', ''''),
     (''iot_wind'', ''''),
     (''past_flood'', ''no''),
     (''flood_severity'', ''''),
     (''flood_duration'', '''')]"
  by (simp add: js_in_def js_set_def initialData_def Object_prototype_keys_def)

theorem csv_uses_first_row_only_witness:
  "extension ''rows.csv'' = ''csv''
   \<and> handleFileUpload (\<lambda>n::nat. decimal n) (\<lambda>text. None)
        (\<lambda>text. Complete
           [[(''rainfall_intensity'', Cell ''10''), (''temperature'', Cell ''25''),
             (''river_level'', Cell ''2.5''), (''elevation'', Cell ''100''),
             (''land_use'', Cell ''urban''), (''station'', Cell ''A7'')],
            [(''rainfall_intensity'', Cell ''77'')]] [])
        (Some \<lparr>file_name = ''rows.csv'', file_text = ''''\<rparr>)
        (initialState\<lparr>errors := [''Invalid JSON file format'']\<rparr>)
      = initialState\<lparr>formData :=
          [(''rainfall_intensity'', ''10''),
           (''rainfall_accumulation'', ''''),
           (''temperature'', ''25''),
           (''humidity'', ''''),
           (''wind_speed'', ''''),
           (''river_level'', ''2.5''),
           (''river_discharge'', ''''),
           (''soil_moisture'', ''''),
           (''groundwater_level'', ''''),
           (''elevation'', ''100''),
           (''slope'', ''''),
           (''land_use'', ''urban''),
           (''soil_type'', ''''),
           (''sat_rainfall'', ''''),
           (''sat_soil_moisture'', ''''),
           (''drone_image'', ''''),
           (''iot_river_level'', ''''),
           (''iot_river_flow'', ''''),
           (''iot_temp'', ''''),
           (''iot_humidity'', ''''),
           (''iot_wind'', ''''),
           (''past_flood'', ''no''),
           (''flood_severity'', ''''),
           (''flood_duration'', '''')],
          errors := []\<rparr>"
proof -
  let ?row = "[(''rainfall_intensity'', Cell ''10''), (''temperature'', Cell ''25''),
             (''river_level'', Cell ''2.5''), (''elevation'', Cell ''100''),
             (''land_use'', Cell ''urban''), (''station'', Cell ''A7'')]"
  let ?later = "[[(''rainfall_intensity'', Cell ''77'')]]"
  let ?st = "initialState\<lparr>errors := [''Invalid JSON file format'']\<rparr>"
  note inst = csv_uses_first_row_only[where row="?row" and later="?later" and st="?st"
      and f="\<lparr>file_name = ''rows.csv'', file_text = ''''\<rparr>"
      and pp="\<lambda>text. Complete (?row # ?later) []" and rows="?row # ?later"
      and parse_errors="[]"
      and ns="\<lambda>n::nat. decimal n" and jp="\<lambda>text. None"]
  have "handleFileUpload (\<lambda>n::nat. decimal n) (\<lambda>text. None) (\<lambda>text. Complete (?row # ?later) [])
        (Some \<lparr>file_name = ''rows.csv'', file_text = ''''\<rparr>) ?st
      = ?st\<lparr>formData := mapRow ?row initialData, errors := []\<rparr>"
    using inst extension_rows_csv by simp
  then show ?thesis
    unfolding mapRow_example using extension_rows_csv by simp
qed

section \<open>Outcome of an import\<close>

lemma handleFileUpload_cases:
  "(\<exists>m\<in>set (failure_messages (extension (file_name f))).
       handleFileUpload ns jp pp (Some f) st = st\<lparr>errors := [m]\<rparr>)
   \<or> (\<exists>fd. handleFileUpload ns jp pp (Some f) st = st\<lparr>formData := fd, errors := []\<rparr>)"
  by (auto simp: handleFileUpload_def failure_messages_def onload_def complete_def
      parse_error_def split: option.splits PapaResult.splits list.splits)

section \<open>String conversion\<close>

lemma those_map_eq_None_iff: "those (map g xs) = None \<longleftrightarrow> (\<exists>x\<in>set xs. g x = None)"
  by (induction xs) (auto split: option.splits)


lemma jsString_None_iff: "jsString ns v = None \<longleftrightarrow> unprintable v"
proof (induction v)
  case (JArr xs)
  have "jsString ns (JArr xs) = None \<longleftrightarrow>
          (\<exists>x\<in>set xs. (case x of JNull \<Rightarrow> Some [] | _ \<Rightarrow> jsString ns x) = None)"
    by (simp add: those_map_eq_None_iff)
  also have "\<dots> \<longleftrightarrow> (\<exists>x\<in>set xs. jsString ns x = None)"
    by (rule bex_cong[OF refl]) (simp split: jsvalue.splits)
  also have "\<dots> \<longleftrightarrow> (\<exists>x\<in>set xs. unprintable x)"
    using JArr by blast
  finally show ?case by simp
qed simp_all


section \<open>The key-mapping loops\<close>

lemma mapJson_None_iff:
  "mapJson ns kvs md = None \<longleftrightarrow> (\<exists>(k, v)\<in>set kvs. js_in k initialData \<and> unprintable v)"
proof (induction kvs arbitrary: md)
  case Nil
  then show ?case by simp
next
  case (Cons kv rest)
  obtain key v where kv: "kv = (key, v)" by (cases kv)
  show ?case
  proof (cases "js_in key initialData")
    case False
    then show ?thesis using Cons.IH[of md] by (simp add: kv)
  next
    case True
    show ?thesis
    proof (cases "jsString ns v")
      case None
      then have "unprintable v" by (simp add: jsString_None_iff)
      then show ?thesis using True None by (simp add: kv)
    next
      case (Some s)
      then have "\<not> unprintable v" using jsString_None_iff[of ns v] by simp
      then show ?thesis using True Some Cons.IH[of "js_set md key s"] by (simp add: kv)
    qed
  qed
qed

lemma mapJson_skips_foreign_keys:
  "\<forall>(k, v)\<in>set kvs. \<not> js_in k initialData \<Longrightarrow> mapJson ns kvs md = Some md"
  by (induction kvs arbitrary: md) auto

lemma decimal_digits: "decimal n \<noteq> [] \<and> hd (decimal n) \<in> set ''0123456789''"
proof (induction n rule: decimal.induct)
  case (1 n)
  show ?case
  proof (cases "n < 10")
    case True
    then have "''0123456789'' ! n \<in> set ''0123456789''"
      by (intro nth_mem) simp
    then show ?thesis using True by (subst (1 2) decimal.simps) simp
  next
    case False
    then show ?thesis using 1 by (subst (1 2) decimal.simps) simp
  qed
qed

lemma js_in_initialData_hd:
  "js_in k initialData \<Longrightarrow> k \<noteq> [] \<and> hd k \<notin> set ''0123456789''"
  by (auto simp: js_in_def initialData_def Object_prototype_keys_def)

lemma decimal_not_in: "\<not> js_in (decimal n) initialData"
  using decimal_digits js_in_initialData_hd by blast

lemma index_keys_foreign:
  "\<forall>(k, v)\<in>set (zip (map decimal ns) vs). \<not> js_in k initialData"
  by (auto dest!: set_zip_leftD simp: decimal_not_in)

lemma jsonImport_non_object:
  "jsonImport ns (Some (JBool b)) = Some initialData"
  "jsonImport ns (Some (JNum n)) = Some initialData"
  "jsonImport ns (Some (JStr s)) = Some initialData"
  "jsonImport ns (Some (JArr xs)) = Some initialData"
  by (simp_all add: jsonImport_def mapJson_skips_foreign_keys index_keys_foreign)

lemma jsonImport_None_iff:
  "jsonImport ns parsed = None \<longleftrightarrow>
     parsed = None \<or> parsed = Some JNull
     \<or> (\<exists>kvs. parsed = Some (JObj kvs) \<and> (\<exists>(k, v)\<in>set kvs. js_in k initialData \<and> unprintable v))"
proof (cases parsed)
  case None
  then show ?thesis by (simp add: jsonImport_def)
next
  case (Some json)
  then show ?thesis
    by (cases json) (simp_all add: jsonImport_non_object, simp_all add: jsonImport_def mapJson_None_iff)
qed

lemma mapJson_lookup:
  assumes "distinct (map fst kvs)" and "mapJson ns kvs md = Some md'"
  shows "map_of md' k =
     (if k = ''__proto__'' then map_of md k
      else case map_of kvs k of
             None \<Rightarrow> map_of md k
           | Some v \<Rightarrow> if js_in k initialData then jsString ns v else map_of md k)"
  using assms
proof (induction kvs arbitrary: md)
  case Nil
  then show ?case by simp
next
  case (Cons kv rest)
  obtain key v where kv: "kv = (key, v)" by (cases kv)
  have d: "distinct (map fst rest)" and fresh: "map_of rest key = None"
    using Cons.prems(1) by (auto simp: kv map_of_eq_None_iff)
  show ?case
  proof (cases "js_in key initialData")
    case False
    then have "mapJson ns rest md = Some md'"
      using Cons.prems(2) by (simp add: kv)
    from Cons.IH[OF d this] show ?thesis
      using False fresh by (auto simp: kv split: option.splits)
  next
    case True
    then obtain s where s: "jsString ns v = Some s"
      and rec: "mapJson ns rest (js_set md key s) = Some md'"
      using Cons.prems(2) by (auto simp: kv split: option.splits)
    from Cons.IH[OF d rec] show ?thesis
      using True fresh s
      by (auto simp: kv js_set_def update_conv' split: option.splits)
  qed
qed

section \<open>The JSON path\<close>

lemma onload_errors_iff:
  "errors (onload ns jp text st) = [''Invalid JSON file format''] \<longleftrightarrow>
     jsonImport ns (jp text) = None"
  by (simp add: onload_def split: option.splits)

lemma extension_level_json: "extension ''level.json'' = ''json''"
  by (simp add: extension_def toLowerCase_def toLowerChar_def)

section \<open>What the import stores\<close>

lemma in_schema_js_in: "k \<in> set schema_keys \<Longrightarrow> js_in k initialData"
  by (simp add: js_in_def schema_keys_def)

lemma proto_not_schema: "''__proto__'' \<notin> set schema_keys"
  by (simp add: schema_keys_def initialData_def)

lemma mapJson_stores_schema_key:
  assumes "distinct (map fst kvs)" and "(k, v) \<in> set kvs" and "k \<in> set schema_keys"
    and "mapJson ns kvs md = Some md'"
  shows "map_of md' k = jsString ns v \<and> jsString ns v \<noteq> None"
proof -
  have look: "map_of kvs k = Some v"
    using assms(1,2) by simp
  have k: "k \<noteq> ''__proto__''"
    using assms(3) proto_not_schema by blast
  have "\<not> (\<exists>(k, v)\<in>set kvs. js_in k initialData \<and> unprintable v)"
    using assms(4) mapJson_None_iff[of ns kvs md] by simp
  then have "\<not> unprintable v"
    using assms(2,3) in_schema_js_in by blast
  then have "jsString ns v \<noteq> None"
    by (simp add: jsString_None_iff)
  moreover have "map_of md' k = jsString ns v"
    using mapJson_lookup[OF assms(1,4), of k] look k in_schema_js_in[OF assms(3)] by simp
  ultimately show ?thesis by simp
qed

lemma jsString_example:
  "jsString decimal (JArr [JNum 1, JNull, JArr [JBool True, JStr ''wet'']]) = Some ''1,,true,wet''"
  by (simp add: decimal.simps)

lemma mapJson_example:
  "mapJson decimal [(''slope'', JArr [JNum 1, JNull, JArr [JBool True, JStr ''wet'']])] initialData
     = Some (AList.update ''slope'' ''1,,true,wet'' initialData)"
proof -
  have "js_in ''slope'' initialData"
    by (simp add: js_in_def initialData_def)
  then show ?thesis
    by (simp only: mapJson.simps jsString_example option.case js_set_def if_True) simp
qed

section \<open>The normalisation rule\<close>

lemma schema_keys_distinct: "distinct schema_keys"
  by (simp add: schema_keys_def initialData_def)

lemma js_in_schema_iff:
  "k \<notin> set Object_prototype_keys \<Longrightarrow> js_in k initialData \<longleftrightarrow> k \<in> set schema_keys"
  by (simp add: js_in_def schema_keys_def)




text \<open>
  C1 at a record with a key that names a property of \<open>Object.prototype\<close>. The claim has
  such a key dropped, since it is not in the schema; the \<open>in\<close> test lets it through, and
  the form data ends with a property beyond the schema.
\<close>

theorem inherited_property_name_is_copied:
  "''constructor'' \<notin> set schema_keys
   \<and> handleFileUpload decimal
        (\<lambda>text. Some (JObj [(''elevation'', JStr ''120''), (''constructor'', JStr ''gauge'')]))
        (\<lambda>text. Failed)
        (Some \<lparr>file_name = ''site.json'', file_text = ''''\<rparr>) initialState
      = initialState\<lparr>formData :=
          AList.update ''elevation'' ''120'' initialData @ [(''constructor'', ''gauge'')]\<rparr>
   \<and> complete [[(''elevation'', Cell ''120''), (''constructor'', Cell ''gauge'')]] initialState
      = initialState\<lparr>formData :=
          AList.update ''elevation'' ''120'' initialData @ [(''constructor'', ''gauge'')]\<rparr>"
proof -
  have e: "extension ''site.json'' = ''json''"
    by (simp add: extension_def toLowerCase_def toLowerChar_def)
  have i1: "js_in ''elevation'' initialData" and i2: "js_in ''constructor'' initialData"
    by (simp_all add: js_in_def initialData_def Object_prototype_keys_def)
  have u: "AList.update ''constructor'' ''gauge'' (AList.update ''elevation'' ''120'' initialData)
      = AList.update ''elevation'' ''120'' initialData @ [(''constructor'', ''gauge'')]"
    by (simp add: initialData_def)
  have j: "jsonImport decimal
        (Some (JObj [(''elevation'', JStr ''120''), (''constructor'', JStr ''gauge'')]))
      = Some (AList.update ''elevation'' ''120'' initialData @ [(''constructor'', ''gauge'')])"
    by (simp add: jsonImport_def i1 i2 js_set_def u)
  have r: "mapRow [(''elevation'', Cell ''120''), (''constructor'', Cell ''gauge'')] initialData
      = AList.update ''elevation'' ''120'' initialData @ [(''constructor'', ''gauge'')]"
    by (simp add: i1 i2 js_set_def u)
  have s: "''constructor'' \<notin> set schema_keys"
    by (simp add: schema_keys_def initialData_def)
  have a: "handleFileUpload decimal
        (\<lambda>text. Some (JObj [(''elevation'', JStr ''120''), (''constructor'', JStr ''gauge'')]))
        (\<lambda>text. Failed)
        (Some \<lparr>file_name = ''site.json'', file_text = ''''\<rparr>) initialState
      = initialState\<lparr>formData :=
          AList.update ''elevation'' ''120'' initialData @ [(''constructor'', ''gauge'')]\<rparr>"
    by (simp add: handleFileUpload_def e onload_def j initialState_def)
  have b: "complete [[(''elevation'', Cell ''120''), (''constructor'', Cell ''gauge'')]] initialState
      = initialState\<lparr>formData :=
          AList.update ''elevation'' ''120'' initialData @ [(''constructor'', ''gauge'')]\<rparr>"
    by (simp only: complete_def list.case r) (simp add: initialState_def)
  show ?thesis
    using s a b by simp
qed

section \<open>The error list\<close>

lemma newErrors_subset:
  "set (newErrors fd) \<subseteq>
     set (map (\<lambda>field. replace_underscores field @ '' is required'') requiredFields)"
  by (auto simp: newErrors_def)

lemma required_message_kind:
  "m \<in> set (map (\<lambda>field. replace_underscores field @ '' is required'') requiredFields)
   \<Longrightarrow> error_kind m = Some ValidationFailed"
  unfolding error_kind_def required_messages by auto

lemma newErrors_one_category: "one_category (newErrors fd)"
  unfolding one_category_def
  using newErrors_subset required_message_kind by blast

lemma failure_message_kind:
  "m \<in> set (failure_messages ext) \<Longrightarrow> error_kind m \<noteq> None"
  by (auto simp: failure_messages_def error_kind_def split: if_splits)

lemma one_category_Nil: "one_category []"
  by (simp add: one_category_def)

lemma one_category_single: "error_kind m \<noteq> None \<Longrightarrow> one_category [m]"
  by (auto simp: one_category_def)

lemma errors_fold_fire: "errors (fold fire ts st) = errors st"
proof (induction ts arbitrary: st)
  case Nil
  then show ?case by simp
next
  case (Cons t ts)
  then show ?case by (cases t) simp_all
qed

lemma errors_tick: "errors (tick st) = errors st"
  by (simp add: tick_def Let_def errors_fold_fire)

lemma errors_handleSubmit: "errors (handleSubmit st) = newErrors (formData st)"
  by (simp add: handleSubmit_def validateForm_def)

lemma handleFileUpload_one_category:
  "one_category (errors (handleFileUpload ns jp pp (Some f) st))"
proof -
  consider m where "m \<in> set (failure_messages (extension (file_name f)))"
      and "handleFileUpload ns jp pp (Some f) st = st\<lparr>errors := [m]\<rparr>"
    | fd where "handleFileUpload ns jp pp (Some f) st = st\<lparr>formData := fd, errors := []\<rparr>"
    using handleFileUpload_cases[of f ns jp pp st] by blast
  then show ?thesis
  proof cases
    case 1
    then show ?thesis
      using one_category_single[OF failure_message_kind] by simp
  next
    case 2
    then show ?thesis by (simp add: one_category_Nil)
  qed
qed

lemma step_one_category:
  assumes "one_category (errors st)"
  shows "one_category (errors (step ns jp pp ev st))"
proof (cases ev)
  case (InputChange k v)
  then show ?thesis using assms by (simp add: handleInputChange_def)
next
  case (FileSelected selected)
  show ?thesis
  proof (cases selected)
    case None
    then show ?thesis using assms FileSelected by (simp add: handleFileUpload_def)
  next
    case (Some f)
    then show ?thesis using FileSelected by (simp add: handleFileUpload_one_category)
  qed
next
  case SubmitClicked
  then show ?thesis
    using assms by (simp add: submitClicked_def errors_handleSubmit newErrors_one_category)
next
  case ErrorsDismissed
  then show ?thesis by (simp add: dismissErrors_def one_category_Nil)
next
  case Tick
  then show ?thesis using assms by (simp add: errors_tick)
qed

lemma fold_step_one_category:
  "one_category (errors st) \<Longrightarrow> one_category (errors (fold (step ns jp pp) evs st))"
  by (induction evs arbitrary: st) (simp_all add: step_one_category)

lemma run_one_category: "one_category (errors (run ns jp pp evs))"
  unfolding run_def
  by (rule fold_step_one_category) (simp add: initialState_def one_category_Nil)

text \<open>
  C6. An import and a submit each store an error list that does not depend on the list
  that was there before: nothing is appended. The list they store, and the list in every
  state the form can reach, holds messages of a single category.
\<close>

theorem error_list_replaced_wholesale:
  "errors (handleFileUpload ns jp pp (Some f) (st\<lparr>errors := old\<rparr>))
     = errors (handleFileUpload ns jp pp (Some f) st)
   \<and> errors (handleSubmit (st\<lparr>errors := old\<rparr>)) = errors (handleSubmit st)
   \<and> one_category (errors (handleFileUpload ns jp pp (Some f) st))
   \<and> one_category (errors (handleSubmit st))
   \<and> one_category (errors (run ns jp pp evs))"
proof -
  have "errors (handleFileUpload ns jp pp (Some f) (st\<lparr>errors := old\<rparr>))
     = errors (handleFileUpload ns jp pp (Some f) st)"
    by (simp add: handleFileUpload_def onload_def complete_def parse_error_def
        split: option.splits PapaResult.splits list.splits)
  moreover have "errors (handleSubmit (st\<lparr>errors := old\<rparr>)) = errors (handleSubmit st)"
    by (simp add: errors_handleSubmit)
  moreover have "one_category (errors (handleSubmit st))"
    by (simp add: errors_handleSubmit newErrors_one_category)
  ultimately show ?thesis
    using handleFileUpload_one_category run_one_category by blast
qed


lemma newErrors_initialData:
  "newErrors initialData =
     [''rainfall intensity is required'', ''temperature is required'',
      ''river level is required'', ''elevation is required'', ''land use is required'']"
  by (simp add: newErrors_def requiredFields_def initialData_def falsy_def replace_underscores_def)

lemma run_unsupported_then_submit:
  "run decimal (\<lambda>text. None) (\<lambda>text. Failed)
       [FileSelected (Some \<lparr>file_name = ''notes.txt'', file_text = ''''\<rparr>), SubmitClicked]
     = initialState\<lparr>errors := newErrors initialData\<rparr>"
proof -
  have n: "newErrors initialData \<noteq> []"
    by (simp add: newErrors_initialData)
  show ?thesis
    by (simp add: run_def handleFileUpload_def extension_notes_txt submitClicked_def
        submitDisabled_def handleSubmit_def validateForm_def initialState_def n)
qed

theorem error_list_replaced_wholesale_witness:
  "errors (handleFileUpload decimal (\<lambda>text. None) (\<lambda>text. Failed)
        (Some \<lparr>file_name = ''notes.txt'', file_text = ''''\<rparr>)
        (initialState\<lparr>errors := newErrors initialData\<rparr>))
     = [''Unsupported file type. Please use JSON or CSV.'']
   \<and> errors (run decimal (\<lambda>text. None) (\<lambda>text. Failed)
        [FileSelected (Some \<lparr>file_name = ''notes.txt'', file_text = ''''\<rparr>), SubmitClicked])
     = [''rainfall intensity is required'', ''temperature is required'',
        ''river level is required'', ''elevation is required'', ''land use is required'']
   \<and> one_category
        [''rainfall intensity is required'', ''temperature is required'',
         ''river level is required'', ''elevation is required'', ''land use is required'']"
proof -
  let ?f = "\<lparr>file_name = ''notes.txt'', file_text = ''''\<rparr>"
  let ?evs = "[FileSelected (Some ?f), SubmitClicked]"
  note inst = error_list_replaced_wholesale[where ns=decimal and jp="\<lambda>text. None"
      and pp="\<lambda>text. Failed" and f="?f" and st=initialState and old="newErrors initialData"
      and evs="?evs"]
  have u: "errors (handleFileUpload decimal (\<lambda>text. None) (\<lambda>text. Failed) (Some ?f) initialState)
      = [''Unsupported file type. Please use JSON or CSV.'']"
    by (simp add: handleFileUpload_def extension_notes_txt)
  have a: "errors (handleFileUpload decimal (\<lambda>text. None) (\<lambda>text. Failed) (Some ?f)
        (initialState\<lparr>errors := newErrors initialData\<rparr>))
     = [''Unsupported file type. Please use JSON or CSV.'']"
    using inst[THEN conjunct1] u by simp
  have e: "errors (run decimal (\<lambda>text. None) (\<lambda>text. Failed) ?evs) = newErrors initialData"
    by (simp add: run_unsupported_then_submit)
  have c: "one_category (newErrors initialData)"
    using inst e by simp
  show ?thesis
    using a e c by (simp add: newErrors_initialData)
qed

section \<open>The submission cycle\<close>

lemma tick_counts_down:
  assumes "timers st = [(r, t)]" and "1 < r"
  shows "tick st = st\<lparr>timers := [(r - 1, t)]\<rparr>"
  using assms by (simp add: tick_def)

lemma tick_fires:
  assumes "timers st = [(r, t)]" and "r \<le> 1"
  shows "tick st = fire t (st\<lparr>timers := []\<rparr>)"
  using assms by (simp add: tick_def)

lemma tick_no_timer: "timers st = [] \<Longrightarrow> tick st = st"
  by (simp add: tick_def)

lemma elapse_Suc: "elapse (Suc n) st = tick (elapse n st)"
  by (simp add: elapse_def)

lemma elapse_add: "elapse (a + b) st = elapse b (elapse a st)"
  unfolding elapse_def using funpow_add[of b a tick] by (simp add: add.commute)

lemma elapse_before_expiry:
  assumes "timers st = [(r, t)]" and "n < r"
  shows "elapse n st = st\<lparr>timers := [(r - n, t)]\<rparr>"
  using assms(2)
proof (induction n)
  case 0
  then show ?case using assms(1) by (simp add: elapse_def)
next
  case (Suc n)
  then have ih: "elapse n st = st\<lparr>timers := [(r - n, t)]\<rparr>" by simp
  have "tick (st\<lparr>timers := [(r - n, t)]\<rparr>) = st\<lparr>timers := [(r - n - 1, t)]\<rparr>"
    using Suc.prems by (simp add: tick_counts_down[where r="r - n" and t=t])
  then show ?case by (simp add: elapse_Suc ih)
qed

lemma elapse_at_expiry:
  assumes "timers st = [(r, t)]" and "0 < r"
  shows "elapse r st = fire t (st\<lparr>timers := []\<rparr>)"
proof -
  obtain n where r: "r = Suc n" using assms(2) by (cases r) auto
  have "elapse n st = st\<lparr>timers := [(1, t)]\<rparr>"
    using elapse_before_expiry[OF assms(1), of n] r by simp
  then show ?thesis
    by (simp add: r elapse_Suc tick_fires[where r=1 and t=t])
qed

lemma handleSubmit_valid:
  assumes "newErrors (formData st) = []"
  shows "handleSubmit st =
     st\<lparr>errors := [], isSubmitting := True, submitStatus := Sending,
        timers := timers st @ [(5000, ResumeSubmit)]\<rparr>"
  using assms by (simp add: handleSubmit_def validateForm_def)

lemma handleSubmit_invalid:
  assumes "newErrors (formData st) \<noteq> []"
  shows "handleSubmit st = st\<lparr>errors := newErrors (formData st)\<rparr>"
  using assms by (simp add: handleSubmit_def validateForm_def)

lemma timer_inv_Idle:
  "timer_inv st \<Longrightarrow> submitStatus st = Idle \<Longrightarrow> \<not> isSubmitting st \<and> timers st = []"
  by (simp add: timer_inv_def)

lemma timer_inv_Sending:
  assumes "timer_inv st" and "submitStatus st = Sending"
  shows "isSubmitting st \<and> (\<exists>r. 0 < r \<and> r \<le> 5000 \<and> timers st = [(r, ResumeSubmit)])"
  using assms by (simp add: timer_inv_def)

lemma timer_inv_Success:
  assumes "timer_inv st" and "submitStatus st = Success"
  shows "\<not> isSubmitting st \<and> (\<exists>r. 0 < r \<and> r \<le> 5000 \<and> timers st = [(r, ResetIdle)])"
  using assms by (simp add: timer_inv_def)

lemma submitDisabled_iff: "timer_inv st \<Longrightarrow> submitDisabled st \<longleftrightarrow> submitStatus st \<noteq> Idle"
  by (cases "submitStatus st") (auto simp: timer_inv_def submitDisabled_def)

lemma timer_inv_frame:
  assumes "timer_inv st" and "submitStatus st' = submitStatus st"
    and "isSubmitting st' = isSubmitting st" and "timers st' = timers st"
  shows "timer_inv st'"
  using assms by (cases "submitStatus st") (simp_all add: timer_inv_def)

lemma handleFileUpload_frame:
  "submitStatus (handleFileUpload ns jp pp selected st) = submitStatus st
   \<and> isSubmitting (handleFileUpload ns jp pp selected st) = isSubmitting st
   \<and> timers (handleFileUpload ns jp pp selected st) = timers st"
  by (simp add: handleFileUpload_def onload_def complete_def parse_error_def
      split: option.splits PapaResult.splits list.splits)


lemma step_frame:
  assumes "ev \<noteq> Tick" and "ev \<noteq> SubmitClicked"
  shows "submitStatus (step ns jp pp ev st) = submitStatus st
   \<and> isSubmitting (step ns jp pp ev st) = isSubmitting st
   \<and> timers (step ns jp pp ev st) = timers st"
  using assms
  by (cases ev) (simp_all add: handleInputChange_def dismissErrors_def handleFileUpload_frame)

lemma submitClicked_accepted:
  assumes "timer_inv st" and "submitStatus st = Idle" and "newErrors (formData st) = []"
  shows "submitClicked st =
     st\<lparr>errors := [], isSubmitting := True, submitStatus := Sending,
        timers := [(5000, ResumeSubmit)]\<rparr>"
  using assms timer_inv_Idle[OF assms(1,2)]
  by (simp add: submitClicked_def submitDisabled_iff handleSubmit_valid)

lemma submitClicked_invalid:
  assumes "timer_inv st" and "submitStatus st = Idle" and "newErrors (formData st) \<noteq> []"
  shows "submitClicked st = st\<lparr>errors := newErrors (formData st)\<rparr>"
  using assms by (simp add: submitClicked_def submitDisabled_iff handleSubmit_invalid)

lemma submitClicked_refused:
  assumes "timer_inv st" and "submitStatus st \<noteq> Idle"
  shows "submitClicked st = st"
  using assms by (simp add: submitClicked_def submitDisabled_iff)

lemma tick_Idle:
  assumes "timer_inv st" and "submitStatus st = Idle"
  shows "tick st = st"
  using timer_inv_Idle[OF assms] by (simp add: tick_no_timer)

lemma tick_Sending:
  assumes "timer_inv st" and "submitStatus st = Sending"
  shows "(\<exists>r. 1 < r \<and> r \<le> 5000 \<and> timers st = [(r, ResumeSubmit)]
            \<and> tick st = st\<lparr>timers := [(r - 1, ResumeSubmit)]\<rparr>)
       \<or> (timers st = [(1, ResumeSubmit)]
            \<and> tick st = st\<lparr>submitStatus := Success, isSubmitting := False,
                            timers := [(5000, ResetIdle)]\<rparr>)"
proof -
  obtain r where r: "0 < r" "r \<le> 5000" "timers st = [(r, ResumeSubmit)]"
    using timer_inv_Sending[OF assms] by blast
  show ?thesis
  proof (cases "1 < r")
    case True
    then show ?thesis using r tick_counts_down[OF r(3) True] by blast
  next
    case False
    then have "r = 1" using r(1) by simp
    then show ?thesis using r(3) tick_fires[OF r(3)] by simp
  qed
qed

lemma tick_Success:
  assumes "timer_inv st" and "submitStatus st = Success"
  shows "(\<exists>r. 1 < r \<and> r \<le> 5000 \<and> timers st = [(r, ResetIdle)]
            \<and> tick st = st\<lparr>timers := [(r - 1, ResetIdle)]\<rparr>)
       \<or> (timers st = [(1, ResetIdle)]
            \<and> tick st = st\<lparr>submitStatus := Idle, timers := []\<rparr>)"
proof -
  obtain r where r: "0 < r" "r \<le> 5000" "timers st = [(r, ResetIdle)]"
    using timer_inv_Success[OF assms] by blast
  show ?thesis
  proof (cases "1 < r")
    case True
    then show ?thesis using r tick_counts_down[OF r(3) True] by blast
  next
    case False
    then have "r = 1" using r(1) by simp
    then show ?thesis using r(3) tick_fires[OF r(3)] by simp
  qed
qed

lemma timer_inv_tick:
  assumes "timer_inv st"
  shows "timer_inv (tick st)"
proof (cases "submitStatus st")
  case Idle
  then show ?thesis using assms tick_Idle by simp
next
  case Sending
  from tick_Sending[OF assms Sending] show ?thesis
  proof
    assume "\<exists>r. 1 < r \<and> r \<le> 5000 \<and> timers st = [(r, ResumeSubmit)]
            \<and> tick st = st\<lparr>timers := [(r - 1, ResumeSubmit)]\<rparr>"
    then obtain r where "1 < r" "r \<le> 5000" "tick st = st\<lparr>timers := [(r - 1, ResumeSubmit)]\<rparr>"
      by blast
    then show ?thesis
      using assms Sending by (simp add: timer_inv_def)
  next
    assume "timers st = [(1, ResumeSubmit)]
            \<and> tick st = st\<lparr>submitStatus := Success, isSubmitting := False,
                            timers := [(5000, ResetIdle)]\<rparr>"
    then show ?thesis by (simp add: timer_inv_def)
  qed
next
  case Success
  from tick_Success[OF assms Success] show ?thesis
  proof
    assume "\<exists>r. 1 < r \<and> r \<le> 5000 \<and> timers st = [(r, ResetIdle)]
            \<and> tick st = st\<lparr>timers := [(r - 1, ResetIdle)]\<rparr>"
    then obtain r where "1 < r" "r \<le> 5000" "tick st = st\<lparr>timers := [(r - 1, ResetIdle)]\<rparr>"
      by blast
    then show ?thesis
      using assms Success by (simp add: timer_inv_def)
  next
    assume "timers st = [(1, ResetIdle)]
            \<and> tick st = st\<lparr>submitStatus := Idle, timers := []\<rparr>"
    then show ?thesis
      using timer_inv_Success[OF assms Success] by (simp add: timer_inv_def)
  qed
qed

lemma timer_inv_submitClicked:
  assumes "timer_inv st"
  shows "timer_inv (submitClicked st)"
proof (cases "submitStatus st = Idle")
  case False
  then show ?thesis using assms submitClicked_refused by simp
next
  case True
  show ?thesis
  proof (cases "newErrors (formData st) = []")
    case True
    then show ?thesis
      using submitClicked_accepted[OF assms \<open>submitStatus st = Idle\<close>]
      by (simp add: timer_inv_def)
  next
    case False
    then have "submitClicked st = st\<lparr>errors := newErrors (formData st)\<rparr>"
      using submitClicked_invalid[OF assms True] by simp
    then show ?thesis
      using timer_inv_frame[OF assms, of "st\<lparr>errors := newErrors (formData st)\<rparr>"] by simp
  qed
qed

lemma timer_inv_step:
  assumes "timer_inv st"
  shows "timer_inv (step ns jp pp ev st)"
proof (cases "ev = Tick \<or> ev = SubmitClicked")
  case True
  then show ?thesis
    using assms timer_inv_tick timer_inv_submitClicked by auto
next
  case False
  then show ?thesis
    using step_frame[of ev ns jp pp st] timer_inv_frame[OF assms] by simp
qed

lemma timer_inv_fold:
  "timer_inv st \<Longrightarrow> timer_inv (fold (step ns jp pp) evs st)"
  by (induction evs arbitrary: st) (simp_all add: timer_inv_step)

lemma timer_inv_run: "timer_inv (run ns jp pp evs)"
  unfolding run_def
  by (rule timer_inv_fold) (simp add: timer_inv_def initialState_def)

lemma cycle_after_accepted_submit:
  assumes "timers s1 = [(5000, ResumeSubmit)]" and "submitStatus s1 = Sending"
  shows "(\<forall>n<5000. submitStatus (elapse n s1) = Sending)
       \<and> submitStatus (elapse 5000 s1) = Success
       \<and> (\<forall>n<5000. submitStatus (elapse (5000 + n) s1) = Success)
       \<and> submitStatus (elapse 10000 s1) = Idle"
proof -
  let ?s2 = "fire ResumeSubmit (s1\<lparr>timers := []\<rparr>)"
  have a: "\<forall>n<5000. submitStatus (elapse n s1) = Sending"
    using elapse_before_expiry[OF assms(1)] assms(2) by simp
  have e1: "elapse 5000 s1 = ?s2"
    using elapse_at_expiry[OF assms(1)] by simp
  have t2: "timers ?s2 = [(5000, ResetIdle)]" and st2: "submitStatus ?s2 = Success"
    by simp_all
  have c: "\<forall>n<5000. submitStatus (elapse (5000 + n) s1) = Success"
    using elapse_before_expiry[OF t2] st2 by (simp add: elapse_add e1)
  have "elapse (5000 + 5000) s1 = elapse 5000 ?s2"
    by (simp only: elapse_add e1)
  then have "elapse 10000 s1 = fire ResetIdle (?s2\<lparr>timers := []\<rparr>)"
    using elapse_at_expiry[OF t2] by simp
  then have d: "submitStatus (elapse 10000 s1) = Idle"
    by simp
  show ?thesis
    using a c d e1 st2 by simp
qed

lemma status_change_only_by_cycle:
  assumes "timer_inv st"
    and "submitStatus (step ns jp pp ev st) \<noteq> submitStatus st"
  shows "(submitStatus st = Idle \<and> submitStatus (step ns jp pp ev st) = Sending
            \<and> ev = SubmitClicked \<and> newErrors (formData st) = [])
       \<or> (submitStatus st = Sending \<and> submitStatus (step ns jp pp ev st) = Success \<and> ev = Tick)
       \<or> (submitStatus st = Success \<and> submitStatus (step ns jp pp ev st) = Idle \<and> ev = Tick)"
proof -
  have ev: "ev = Tick \<or> ev = SubmitClicked"
    using step_frame[of ev ns jp pp st] assms(2) by blast
  show ?thesis
  proof (cases "ev = SubmitClicked")
    case True
    then have ch: "submitStatus (submitClicked st) \<noteq> submitStatus st"
      using assms(2) by simp
    then have idle: "submitStatus st = Idle"
      using submitClicked_refused[OF assms(1)] by force
    have valid: "newErrors (formData st) = []"
      using submitClicked_invalid[OF assms(1) idle] ch by force
    show ?thesis
      using True idle valid submitClicked_accepted[OF assms(1) idle valid] by simp
  next
    case False
    then have tk: "ev = Tick" using ev by simp
    then have ch: "submitStatus (tick st) \<noteq> submitStatus st"
      using assms(2) by simp
    show ?thesis
    proof (cases "submitStatus st")
      case Idle
      then show ?thesis using tick_Idle[OF assms(1)] ch by simp
    next
      case Sending
      then show ?thesis using tick_Sending[OF assms(1) Sending] ch tk by auto
    next
      case Success
      then show ?thesis using tick_Success[OF assms(1) Success] ch tk by auto
    qed
  qed
qed

text \<open>
  C5. In every state the form can reach: a submit from idle with a valid form moves to
  sending, 5000 ms later the state is success, and 5000 ms after that it is idle again;
  a submit from idle with an invalid form stays idle and stores the validation errors; a
  submit while the state is sending (or success) is not accepted and changes nothing. The
  status changes in no other way: only idle to sending by an accepted submit, sending to
  success and success to idle by the passing of time, and no event other than a submit or
  the passing of time touches the status or the pending timer.
\<close>

theorem submission_state_machine:
  assumes "st = run ns jp pp evs"
  shows "(submitStatus st = Idle \<and> newErrors (formData st) = [] \<longrightarrow>
            submitClicked st =
              st\<lparr>errors := [], isSubmitting := True, submitStatus := Sending,
                 timers := [(5000, ResumeSubmit)]\<rparr>
            \<and> (\<forall>n<5000. submitStatus (elapse n (submitClicked st)) = Sending)
            \<and> submitStatus (elapse 5000 (submitClicked st)) = Success
            \<and> (\<forall>n<5000. submitStatus (elapse (5000 + n) (submitClicked st)) = Success)
            \<and> submitStatus (elapse 10000 (submitClicked st)) = Idle)
       \<and> (submitStatus st = Idle \<and> newErrors (formData st) \<noteq> [] \<longrightarrow>
            submitClicked st = st\<lparr>errors := newErrors (formData st)\<rparr>)
       \<and> (submitStatus st \<noteq> Idle \<longrightarrow> submitClicked st = st)
       \<and> (submitStatus (step ns jp pp ev st) \<noteq> submitStatus st \<longrightarrow>
            (submitStatus st = Idle \<and> submitStatus (step ns jp pp ev st) = Sending
               \<and> ev = SubmitClicked \<and> newErrors (formData st) = [])
            \<or> (submitStatus st = Sending \<and> submitStatus (step ns jp pp ev st) = Success
               \<and> ev = Tick)
            \<or> (submitStatus st = Success \<and> submitStatus (step ns jp pp ev st) = Idle
               \<and> ev = Tick))
       \<and> (ev \<noteq> Tick \<and> ev \<noteq> SubmitClicked \<longrightarrow>
            submitStatus (step ns jp pp ev st) = submitStatus st
            \<and> timers (step ns jp pp ev st) = timers st)"
proof -
  have inv: "timer_inv st"
    using assms timer_inv_run by simp
  have a: "submitStatus st = Idle \<and> newErrors (formData st) = [] \<longrightarrow>
            submitClicked st =
              st\<lparr>errors := [], isSubmitting := True, submitStatus := Sending,
                 timers := [(5000, ResumeSubmit)]\<rparr>
            \<and> (\<forall>n<5000. submitStatus (elapse n (submitClicked st)) = Sending)
            \<and> submitStatus (elapse 5000 (submitClicked st)) = Success
            \<and> (\<forall>n<5000. submitStatus (elapse (5000 + n) (submitClicked st)) = Success)
            \<and> submitStatus (elapse 10000 (submitClicked st)) = Idle"
  proof
    assume h: "submitStatus st = Idle \<and> newErrors (formData st) = []"
    then have acc: "submitClicked st =
              st\<lparr>errors := [], isSubmitting := True, submitStatus := Sending,
                 timers := [(5000, ResumeSubmit)]\<rparr>"
      using submitClicked_accepted[OF inv] by simp
    then have "timers (submitClicked st) = [(5000, ResumeSubmit)]"
      and "submitStatus (submitClicked st) = Sending"
      by simp_all
    from cycle_after_accepted_submit[OF this] acc
    show "submitClicked st =
              st\<lparr>errors := [], isSubmitting := True, submitStatus := Sending,
                 timers := [(5000, ResumeSubmit)]\<rparr>
            \<and> (\<forall>n<5000. submitStatus (elapse n (submitClicked st)) = Sending)
            \<and> submitStatus (elapse 5000 (submitClicked st)) = Success
            \<and> (\<forall>n<5000. submitStatus (elapse (5000 + n) (submitClicked st)) = Success)
            \<and> submitStatus (elapse 10000 (submitClicked st)) = Idle"
      by blast
  qed
  have b: "submitStatus st = Idle \<and> newErrors (formData st) \<noteq> [] \<longrightarrow>
            submitClicked st = st\<lparr>errors := newErrors (formData st)\<rparr>"
    using submitClicked_invalid[OF inv] by blast
  have c: "submitStatus st \<noteq> Idle \<longrightarrow> submitClicked st = st"
    using submitClicked_refused[OF inv] by blast
  have d: "submitStatus (step ns jp pp ev st) \<noteq> submitStatus st \<longrightarrow>
            (submitStatus st = Idle \<and> submitStatus (step ns jp pp ev st) = Sending
               \<and> ev = SubmitClicked \<and> newErrors (formData st) = [])
            \<or> (submitStatus st = Sending \<and> submitStatus (step ns jp pp ev st) = Success
               \<and> ev = Tick)
            \<or> (submitStatus st = Success \<and> submitStatus (step ns jp pp ev st) = Idle
               \<and> ev = Tick)"
    using status_change_only_by_cycle[OF inv] by blast
  have e: "ev \<noteq> Tick \<and> ev \<noteq> SubmitClicked \<longrightarrow>
            submitStatus (step ns jp pp ev st) = submitStatus st
            \<and> timers (step ns jp pp ev st) = timers st"
    using step_frame[of ev ns jp pp st] by blast
  from a b c d e show ?thesis by blast
qed

lemma newErrors_example:
  "newErrors
    [(''rainfall_intensity'', ''10''),
     (''rainfall_accumulation'', ''''),
     (''temperature'', ''25''),
     (''humidity'', ''''),
     (''wind_speed'', ''''),
     (''river_level'', ''2.5''),
     (''river_discharge'', ''''),
     (''soil_moisture'', ''''),
     (''groundwater_level'', ''''),
     (''elevation'', ''100''),
     (''slope'', ''''),
     (''land_use'', ''urban''),
     (''soil_type'', ''''),
     (''sat_rainfall'', ''''),
     (''sat_soil_moisture'', ''''),
     (''drone_image'', ''''),
     (''iot_river_level'', ''''),
     (''iot_river_flow'', ''''),
     (''iot_temp'', ''''),
     (''iot_humidity'', ''''),
     (''iot_wind'', ''''),
     (''past_flood'', ''no''),
     (''flood_severity'', ''''),
     (''flood_duration'', '''')] = []"
  by (simp add: newErrors_def requiredFields_def falsy_def)

theorem submission_state_machine_witness:
  "(let parse_rows = (\<lambda>text. Complete
           [[(''rainfall_intensity'', Cell ''10''), (''temperature'', Cell ''25''),
             (''river_level'', Cell ''2.5''), (''elevation'', Cell ''100''),
             (''land_use'', Cell ''urban''), (''station'', Cell ''A7'')]] []);
        import = FileSelected (Some \<lparr>file_name = ''rows.csv'', file_text = ''''\<rparr>);
        st0 = run decimal (\<lambda>text. None) parse_rows [];
        st1 = run decimal (\<lambda>text. None) parse_rows [import];
        st2 = run decimal (\<lambda>text. None) parse_rows [import, SubmitClicked]
    in submitStatus st0 = Idle \<and> newErrors (formData st0) \<noteq> []
       \<and> submitClicked st0 = st0\<lparr>errors :=
            [''rainfall intensity is required'', ''temperature is required'',
             ''river level is required'', ''elevation is required'', ''land use is required'']\<rparr>
       \<and> submitStatus st1 = Idle \<and> newErrors (formData st1) = []
       \<and> submitStatus (submitClicked st1) = Sending
       \<and> submitStatus (elapse 4999 (submitClicked st1)) = Sending
       \<and> submitStatus (elapse 5000 (submitClicked st1)) = Success
       \<and> submitStatus (elapse 9999 (submitClicked st1)) = Success
       \<and> submitStatus (elapse 10000 (submitClicked st1)) = Idle
       \<and> submitStatus st2 = Sending
       \<and> submitClicked st2 = st2)"
proof -
  let ?row = "[(''rainfall_intensity'', Cell ''10''), (''temperature'', Cell ''25''),
             (''river_level'', Cell ''2.5''), (''elevation'', Cell ''100''),
             (''land_use'', Cell ''urban''), (''station'', Cell ''A7'')]"
  let ?pp = "\<lambda>text::string. Complete [?row] []"
  let ?jp = "\<lambda>text::string. (None :: nat jsvalue option)"
  let ?import = "FileSelected (Some \<lparr>file_name = ''rows.csv'', file_text = ''''\<rparr>)"
  let ?st0 = "run decimal ?jp ?pp []"
  let ?st1 = "run decimal ?jp ?pp [?import]"
  let ?st2 = "run decimal ?jp ?pp [?import, SubmitClicked]"
  have r0: "?st0 = initialState"
    by (simp add: run_def)
  have "?st1 = complete [?row] initialState"
    by (simp add: run_def handleFileUpload_def extension_rows_csv)
  also have "\<dots> = initialState\<lparr>formData := mapRow ?row initialData, errors := []\<rparr>"
    by (simp only: complete_def list.case)
  finally have r1: "?st1 = initialState\<lparr>formData := mapRow ?row initialData, errors := []\<rparr>" .
  have f1: "formData ?st1 = mapRow ?row initialData" and s1: "submitStatus ?st1 = Idle"
    unfolding r1 by (simp_all add: initialState_def)
  have v1: "newErrors (formData ?st1) = []"
    unfolding f1 mapRow_example by (rule newErrors_example)
  have r2: "?st2 = submitClicked ?st1"
    by (simp add: run_def)
  have s0: "submitStatus ?st0 = Idle" and f0: "formData ?st0 = initialData"
    unfolding r0 by (simp_all add: initialState_def)
  have v0: "newErrors (formData ?st0) \<noteq> []"
    unfolding f0 by (simp add: newErrors_initialData)
  note w0 = submission_state_machine[where st="?st0" and ns=decimal and jp="?jp" and pp="?pp"
      and evs="[]", OF refl]
  note w1 = submission_state_machine[where st="?st1" and ns=decimal and jp="?jp" and pp="?pp"
      and evs="[?import]", OF refl]
  note w2 = submission_state_machine[where st="?st2" and ns=decimal and jp="?jp" and pp="?pp"
      and evs="[?import, SubmitClicked]", OF refl]
  have a0: "submitClicked ?st0 = ?st0\<lparr>errors := newErrors (formData ?st0)\<rparr>"
    using w0 s0 v0 by blast
  have a1: "submitClicked ?st1 =
              ?st1\<lparr>errors := [], isSubmitting := True, submitStatus := Sending,
                 timers := [(5000, ResumeSubmit)]\<rparr>"
    and b1: "\<forall>n<5000. submitStatus (elapse n (submitClicked ?st1)) = Sending"
    and c1: "submitStatus (elapse 5000 (submitClicked ?st1)) = Success"
    and d1: "\<forall>n<5000. submitStatus (elapse (5000 + n) (submitClicked ?st1)) = Success"
    and e1: "submitStatus (elapse 10000 (submitClicked ?st1)) = Idle"
    using w1 s1 v1 by blast+
  have g1: "submitStatus (submitClicked ?st1) = Sending"
    unfolding a1 by simp
  have b1': "submitStatus (elapse 4999 (submitClicked ?st1)) = Sending"
    using b1[rule_format, of 4999] by simp
  have d1': "submitStatus (elapse 9999 (submitClicked ?st1)) = Success"
    using d1[rule_format, of 4999] by simp
  have s2: "submitStatus ?st2 = Sending"
    unfolding r2 by (rule g1)
  have a2: "submitClicked ?st2 = ?st2"
    using w2 s2 by simp
  have a0': "submitClicked ?st0 = ?st0\<lparr>errors :=
            [''rainfall intensity is required'', ''temperature is required'',
             ''river level is required'', ''elevation is required'', ''land use is required'']\<rparr>"
    using a0 unfolding f0 newErrors_initialData .
  show ?thesis
    unfolding Let_def
    using s0 v0 a0' s1 v1 g1 b1' c1 d1' e1 s2 a2 by blast
qed

section \<open>Form data keeps the declared properties\<close>

lemma js_set_keeps_keys: "set (map fst md) \<subseteq> set (map fst (js_set md k s))"
  by (auto simp: js_set_def dom_update)

lemma mapJson_grows_keys:
  "mapJson ns kvs md = Some md' \<Longrightarrow> set (map fst md) \<subseteq> set (map fst md')"
proof (induction kvs arbitrary: md)
  case Nil
  then show ?case by simp
next
  case (Cons kv rest)
  obtain key v where kv: "kv = (key, v)" by (cases kv)
  show ?case
  proof (cases "js_in key initialData")
    case False
    then show ?thesis using Cons by (simp add: kv)
  next
    case True
    then obtain s where "mapJson ns rest (js_set md key s) = Some md'"
      using Cons.prems by (auto simp: kv split: option.splits)
    from Cons.IH[OF this] js_set_keeps_keys[of md key s] show ?thesis by blast
  qed
qed

lemma mapRow_grows_keys: "set (map fst md) \<subseteq> set (map fst (mapRow row md))"
proof (induction row arbitrary: md)
  case Nil
  then show ?case by simp
next
  case (Cons kv rest)
  obtain key v where kv: "kv = (key, v)" by (cases kv)
  show ?case
  proof (cases "js_in key initialData")
    case False
    then show ?thesis using Cons[of md] by (simp add: kv)
  next
    case True
    then show ?thesis
      using Cons[of "js_set md key (fieldString v)"] js_set_keeps_keys[of md key "fieldString v"]
      by (simp add: kv)
  qed
qed

lemma is_FormData_jsonImport: "jsonImport ns parsed = Some md \<Longrightarrow> is_FormData md"
  using mapJson_grows_keys[of ns _ initialData md]
  by (auto simp: jsonImport_def is_FormData_def schema_keys_def split: option.splits)

lemma is_FormData_mapRow: "is_FormData (mapRow row initialData)"
  using mapRow_grows_keys[of initialData row] by (simp add: is_FormData_def schema_keys_def)

lemma formData_fold_fire: "formData (fold fire ts st) = formData st"
proof (induction ts arbitrary: st)
  case Nil
  then show ?case by simp
next
  case (Cons t ts)
  then show ?case by (cases t) simp_all
qed

lemma is_FormData_step:
  assumes "is_FormData (formData st)"
  shows "is_FormData (formData (step ns jp pp ev st))"
proof (cases ev)
  case (InputChange k v)
  then show ?thesis using assms by (simp add: handleInputChange_def is_FormData_update)
next
  case (FileSelected selected)
  then show ?thesis
    using assms
    by (auto simp: handleFileUpload_def onload_def complete_def parse_error_def
        is_FormData_jsonImport is_FormData_mapRow
        split: option.splits PapaResult.splits list.splits)
next
  case SubmitClicked
  then show ?thesis
    using assms by (simp add: submitClicked_def handleSubmit_def validateForm_def)
next
  case ErrorsDismissed
  then show ?thesis using assms by (simp add: dismissErrors_def)
next
  case Tick
  then show ?thesis using assms by (simp add: tick_def Let_def formData_fold_fire)
qed

lemma is_FormData_fold:
  "is_FormData (formData st) \<Longrightarrow> is_FormData (formData (fold (step ns jp pp) evs st))"
  by (induction evs arbitrary: st) (simp_all add: is_FormData_step)

text \<open>
  The form data of every state the form can reach has all the properties the \<open>FormData\<close>
  interface declares, so the validator's precondition always holds.
\<close>

lemma is_FormData_run: "is_FormData (formData (run ns jp pp evs))"
  unfolding run_def
  by (rule is_FormData_fold) (simp add: initialState_def is_FormData_initialData)

section \<open>The CSV copy of the loop\<close>




section \<open>Which imports fail\<close>

lemma key_of_entry: "(k, v) \<in> set kvs \<Longrightarrow> k \<in> set (map fst kvs)"
  by force

lemma unprintable_entry_iff:
  assumes "\<forall>k\<in>set (map fst kvs). k \<notin> set Object_prototype_keys"
  shows "(\<exists>(k, v)\<in>set kvs. js_in k initialData \<and> unprintable v)
     \<longleftrightarrow> (\<exists>(k, v)\<in>set kvs. k \<in> set schema_keys \<and> unprintable v)"
proof -
  have "js_in k initialData \<longleftrightarrow> k \<in> set schema_keys" if "(k, v) \<in> set kvs" for k v
    using assms key_of_entry[OF that] js_in_schema_iff by blast
  then show ?thesis by blast
qed

lemma mapJson_None_iff_schema:
  assumes "\<forall>k\<in>set (map fst kvs). k \<notin> set Object_prototype_keys"
  shows "mapJson ns kvs md = None \<longleftrightarrow> (\<exists>(k, v)\<in>set kvs. k \<in> set schema_keys \<and> unprintable v)"
  unfolding mapJson_None_iff unprintable_entry_iff[OF assms] ..

lemma jsonImport_JObj: "jsonImport ns (Some (JObj kvs)) = mapJson ns kvs initialData"
  by (simp add: jsonImport_def)

lemma onload_failure:
  "jsonImport ns (jp text) = None \<Longrightarrow>
     onload ns jp text st = st\<lparr>errors := [''Invalid JSON file format'']\<rparr>"
  by (simp add: onload_def)

lemma onload_success:
  "jsonImport ns (jp text) = Some md \<Longrightarrow>
     onload ns jp text st = st\<lparr>formData := md, errors := []\<rparr>"
  by (simp add: onload_def)

lemma json_dispatch:
  "extension (file_name f) = ''json'' \<Longrightarrow>
     handleFileUpload ns jp pp (Some f) st = onload ns jp (file_text f) st"
  by (simp add: handleFileUpload_def)


text \<open>
  C2, as the code has it. Take a file with extension json whose parsed value is not an
  object with a key that names a property of \<open>Object.prototype\<close>. The import stores the
  error "Invalid JSON file format" exactly when \<open>JSON.parse\<close> throws, or the parsed value
  is null, or it is an object in which the value of some schema key cannot be converted by
  \<open>String\<close>. In every other case the import succeeds; in particular a boolean, a number,
  a string or an array at top level is accepted and resets the form data to
  \<open>initialData\<close>.
\<close>

theorem json_import_fails_iff:
  assumes "extension (file_name f) = ''json''"
    and "\<forall>kvs. jp (file_text f) = Some (JObj kvs) \<longrightarrow>
           (\<forall>k\<in>set (map fst kvs). k \<notin> set Object_prototype_keys)"
  shows "(errors (handleFileUpload ns jp pp (Some f) st) = [''Invalid JSON file format'']
            \<longleftrightarrow> jp (file_text f) = None \<or> jp (file_text f) = Some JNull
                \<or> (\<exists>kvs. jp (file_text f) = Some (JObj kvs)
                      \<and> (\<exists>(k, v)\<in>set kvs. k \<in> set schema_keys \<and> unprintable v)))
         \<and> (handleFileUpload ns jp pp (Some f) st = st\<lparr>errors := [''Invalid JSON file format'']\<rparr>
              \<or> (\<exists>mappedData. handleFileUpload ns jp pp (Some f) st
                     = st\<lparr>formData := mappedData, errors := []\<rparr>))
         \<and> ((\<exists>b. jp (file_text f) = Some (JBool b)) \<or> (\<exists>n. jp (file_text f) = Some (JNum n))
              \<or> (\<exists>s. jp (file_text f) = Some (JStr s)) \<or> (\<exists>xs. jp (file_text f) = Some (JArr xs))
              \<longrightarrow> handleFileUpload ns jp pp (Some f) st = st\<lparr>formData := initialData, errors := []\<rparr>)"
proof -
  note h = json_dispatch[OF assms(1), of ns jp pp st]
  have third: "(\<exists>kvs. jp (file_text f) = Some (JObj kvs)
                      \<and> (\<exists>(k, v)\<in>set kvs. js_in k initialData \<and> unprintable v))
     \<longleftrightarrow> (\<exists>kvs. jp (file_text f) = Some (JObj kvs)
                      \<and> (\<exists>(k, v)\<in>set kvs. k \<in> set schema_keys \<and> unprintable v))"
    using assms(2) unprintable_entry_iff by blast
  have a: "errors (onload ns jp (file_text f) st) = [''Invalid JSON file format'']
            \<longleftrightarrow> jp (file_text f) = None \<or> jp (file_text f) = Some JNull
                \<or> (\<exists>kvs. jp (file_text f) = Some (JObj kvs)
                      \<and> (\<exists>(k, v)\<in>set kvs. k \<in> set schema_keys \<and> unprintable v))"
    unfolding onload_errors_iff jsonImport_None_iff third ..
  have b: "onload ns jp (file_text f) st = st\<lparr>errors := [''Invalid JSON file format'']\<rparr>
              \<or> (\<exists>mappedData. onload ns jp (file_text f) st
                     = st\<lparr>formData := mappedData, errors := []\<rparr>)"
    by (cases "jsonImport ns (jp (file_text f))") (auto simp: onload_def)
  have c: "(\<exists>b. jp (file_text f) = Some (JBool b)) \<or> (\<exists>n. jp (file_text f) = Some (JNum n))
              \<or> (\<exists>s. jp (file_text f) = Some (JStr s)) \<or> (\<exists>xs. jp (file_text f) = Some (JArr xs))
              \<longrightarrow> onload ns jp (file_text f) st = st\<lparr>formData := initialData, errors := []\<rparr>"
    by (auto simp: onload_def jsonImport_non_object)
  show ?thesis
    unfolding h using a b c by blast
qed

theorem json_import_fails_iff_witness:
  "extension ''level.json'' = ''json''
   \<and> handleFileUpload decimal (\<lambda>text. Some (JArr [JNum 1, JNum 2])) (\<lambda>text. Failed)
        (Some \<lparr>file_name = ''level.json'', file_text = ''[1,2]''\<rparr>)
        (initialState\<lparr>errors := [''elevation is required'']\<rparr>)
      = initialState
   \<and> errors (handleFileUpload decimal (\<lambda>text. Some JNull) (\<lambda>text. Failed)
        (Some \<lparr>file_name = ''level.json'', file_text = ''null''\<rparr>) initialState)
      = [''Invalid JSON file format'']"
proof -
  let ?f1 = "\<lparr>file_name = ''level.json'', file_text = ''[1,2]''\<rparr>"
  let ?f2 = "\<lparr>file_name = ''level.json'', file_text = ''null''\<rparr>"
  let ?jp1 = "\<lambda>text::string. Some (JArr [JNum (1::nat), JNum 2])"
  let ?jp2 = "\<lambda>text::string. Some (JNull :: nat jsvalue)"
  have e1: "extension (file_name ?f1) = ''json''" and e2: "extension (file_name ?f2) = ''json''"
    by (simp_all add: extension_level_json)
  have c1: "\<forall>kvs. ?jp1 (file_text ?f1) = Some (JObj kvs) \<longrightarrow>
           (\<forall>k\<in>set (map fst kvs). k \<notin> set Object_prototype_keys)"
    and c2: "\<forall>kvs. ?jp2 (file_text ?f2) = Some (JObj kvs) \<longrightarrow>
           (\<forall>k\<in>set (map fst kvs). k \<notin> set Object_prototype_keys)"
    by simp_all
  have a: "handleFileUpload decimal ?jp1 (\<lambda>text. Failed) (Some ?f1)
        (initialState\<lparr>errors := [''elevation is required'']\<rparr>)
      = initialState"
    using json_import_fails_iff[OF e1 c1, where ns=decimal
        and pp="\<lambda>text. Failed" and st="initialState\<lparr>errors := [''elevation is required'']\<rparr>",
        THEN conjunct2, THEN conjunct2]
    by (simp add: initialState_def)
  have b: "errors (handleFileUpload decimal ?jp2 (\<lambda>text. Failed) (Some ?f2)
        initialState) = [''Invalid JSON file format'']"
    using json_import_fails_iff[OF e2 c2, where ns=decimal
        and pp="\<lambda>text. Failed" and st=initialState, THEN conjunct1]
    by simp
  show ?thesis
    using a b extension_level_json by simp
qed

text \<open>
  C2 as stated fails on a file whose text parses to the boolean \<open>true\<close>: \<open>JSON.parse\<close> does
  not throw and the value is not an object, yet no error is stored; the form data, which
  an earlier edit had changed, is reset to \<open>initialData\<close>.
\<close>

theorem json_top_level_boolean_accepted:
  "extension ''flag.json'' = ''json''
   \<and> handleFileUpload decimal (\<lambda>text. Some (JBool True)) (\<lambda>text. Failed)
        (Some \<lparr>file_name = ''flag.json'', file_text = ''true''\<rparr>)
        (initialState\<lparr>formData := AList.update ''elevation'' ''120'' initialData\<rparr>)
      = initialState\<lparr>formData := initialData, errors := []\<rparr>
   \<and> errors (handleFileUpload decimal (\<lambda>text. Some (JBool True)) (\<lambda>text. Failed)
        (Some \<lparr>file_name = ''flag.json'', file_text = ''true''\<rparr>)
        (initialState\<lparr>formData := AList.update ''elevation'' ''120'' initialData\<rparr>))
      \<noteq> [''Invalid JSON file format'']"
proof -
  have e: "extension ''flag.json'' = ''json''"
    by (simp add: extension_def toLowerCase_def toLowerChar_def)
  have "handleFileUpload decimal (\<lambda>text. Some (JBool True)) (\<lambda>text. Failed)
        (Some \<lparr>file_name = ''flag.json'', file_text = ''true''\<rparr>)
        (initialState\<lparr>formData := AList.update ''elevation'' ''120'' initialData\<rparr>)
      = initialState\<lparr>formData := initialData, errors := []\<rparr>"
    by (simp add: handleFileUpload_def e onload_def jsonImport_def)
  then show ?thesis using e by simp
qed

section \<open>What an import stores for each value\<close>


lemma json_import_rejects:
  assumes "extension (file_name f) = ''json''"
    and "jp (file_text f) = Some (JObj kvs)"
    and "\<forall>k\<in>set (map fst kvs). k \<notin> set Object_prototype_keys"
    and "\<exists>(k, v)\<in>set kvs. k \<in> set schema_keys \<and> unprintable v"
  shows "handleFileUpload ns jp pp (Some f) st = st\<lparr>errors := [''Invalid JSON file format'']\<rparr>"
proof -
  have "mapJson ns kvs initialData = None"
    using assms(4) mapJson_None_iff_schema[OF assms(3), of ns initialData] by simp
  then have "jsonImport ns (jp (file_text f)) = None"
    by (simp add: assms(2) jsonImport_JObj)
  then show ?thesis
    by (simp add: json_dispatch[OF assms(1)] onload_def)
qed








section \<open>Failure and success of an import\<close>

lemma handleFileUpload_outcome_for_all_states:
  "(\<exists>m\<in>set (failure_messages (extension (file_name f))).
       \<forall>s. handleFileUpload ns jp pp (Some f) s = s\<lparr>errors := [m]\<rparr>)
   \<or> (\<exists>fd. \<forall>s. handleFileUpload ns jp pp (Some f) s = s\<lparr>formData := fd, errors := []\<rparr>)"
  by (auto simp: handleFileUpload_def failure_messages_def onload_def complete_def
      parse_error_def split: option.splits PapaResult.splits list.splits)

lemma json_import_accepts:
  assumes "extension (file_name f) = ''json''"
    and "jp (file_text f) = Some (JObj kvs)"
    and "\<forall>k\<in>set (map fst kvs). k \<notin> set Object_prototype_keys"
    and "\<not> (\<exists>(k, v)\<in>set kvs. k \<in> set schema_keys \<and> unprintable v)"
  shows "\<exists>md. mapJson ns kvs initialData = Some md
           \<and> handleFileUpload ns jp pp (Some f) st = st\<lparr>formData := md, errors := []\<rparr>"
proof -
  have "mapJson ns kvs initialData \<noteq> None"
    using assms(4) mapJson_None_iff_schema[OF assms(3), of ns initialData] by simp
  then obtain md where md: "mapJson ns kvs initialData = Some md"
    by blast
  then have "jsonImport ns (jp (file_text f)) = Some md"
    by (simp add: assms(2) jsonImport_JObj)
  then have "handleFileUpload ns jp pp (Some f) st = st\<lparr>formData := md, errors := []\<rparr>"
    by (simp add: json_dispatch[OF assms(1)] onload_def)
  with md show ?thesis by blast
qed

text \<open>
  C3, as the code has it. Every import of a selected file either fails, and then the form
  data is left as it was and the error list becomes the one message of the failure, or
  succeeds, and then the form data is replaced as a whole by a value that does not depend
  on the state before and the error list becomes empty. It fails when the extension is
  neither json nor csv; on the JSON path when \<open>JSON.parse\<close> throws, when the parsed value
  is null, and when the value of some schema key cannot be converted by \<open>String\<close>; on the
  CSV path when PapaParse calls \<open>error\<close> and when it delivers no data row. It succeeds in
  the other cases. In particular a CSV file for which PapaParse lists structural errors but
  still delivers a data row is imported from that row: \<open>results.errors\<close> is never
  consulted. (A JSON object with a key that names a property of \<open>Object.prototype\<close> is
  covered by the first sentence only.)
\<close>

theorem import_fails_or_replaces:
  "(extension (file_name f) \<noteq> ''json'' \<and> extension (file_name f) \<noteq> ''csv'' \<longrightarrow>
      handleFileUpload ns jp pp (Some f) st =
        st\<lparr>errors := [''Unsupported file type. Please use JSON or CSV.'']\<rparr>)
   \<and> (extension (file_name f) = ''json''
        \<and> (jp (file_text f) = None \<or> jp (file_text f) = Some JNull) \<longrightarrow>
      handleFileUpload ns jp pp (Some f) st = st\<lparr>errors := [''Invalid JSON file format'']\<rparr>)
   \<and> (extension (file_name f) = ''json'' \<and> jp (file_text f) = Some (JObj kvs)
        \<and> (\<forall>k\<in>set (map fst kvs). k \<notin> set Object_prototype_keys)
        \<and> (\<exists>(k, v)\<in>set kvs. k \<in> set schema_keys \<and> unprintable v) \<longrightarrow>
      handleFileUpload ns jp pp (Some f) st = st\<lparr>errors := [''Invalid JSON file format'']\<rparr>)
   \<and> (extension (file_name f) = ''json'' \<and> jp (file_text f) = Some (JObj kvs)
        \<and> (\<forall>k\<in>set (map fst kvs). k \<notin> set Object_prototype_keys)
        \<and> \<not> (\<exists>(k, v)\<in>set kvs. k \<in> set schema_keys \<and> unprintable v) \<longrightarrow>
      (\<exists>md. mapJson ns kvs initialData = Some md
         \<and> handleFileUpload ns jp pp (Some f) st = st\<lparr>formData := md, errors := []\<rparr>))
   \<and> (extension (file_name f) = ''json''
        \<and> ((\<exists>b. jp (file_text f) = Some (JBool b)) \<or> (\<exists>n. jp (file_text f) = Some (JNum n))
            \<or> (\<exists>s. jp (file_text f) = Some (JStr s)) \<or> (\<exists>xs. jp (file_text f) = Some (JArr xs)))
        \<longrightarrow>
      handleFileUpload ns jp pp (Some f) st = st\<lparr>formData := initialData, errors := []\<rparr>)
   \<and> (extension (file_name f) = ''csv'' \<and> pp (file_text f) = Failed \<longrightarrow>
      handleFileUpload ns jp pp (Some f) st = st\<lparr>errors := [''Error parsing CSV file'']\<rparr>)
   \<and> (extension (file_name f) = ''csv'' \<and> pp (file_text f) = Complete [] parse_errors \<longrightarrow>
      handleFileUpload ns jp pp (Some f) st = st\<lparr>errors := [''CSV file is empty or invalid'']\<rparr>)
   \<and> (extension (file_name f) = ''csv'' \<and> pp (file_text f) = Complete (row # later) parse_errors
        \<longrightarrow>
      handleFileUpload ns jp pp (Some f) st = st\<lparr>formData := mapRow row initialData, errors := []\<rparr>)
   \<and> ((\<exists>m\<in>set (failure_messages (extension (file_name f))).
          \<forall>s. handleFileUpload ns jp pp (Some f) s = s\<lparr>errors := [m]\<rparr>)
       \<or> (\<exists>fd. \<forall>s. handleFileUpload ns jp pp (Some f) s = s\<lparr>formData := fd, errors := []\<rparr>))"
proof -
  have a: "extension (file_name f) \<noteq> ''json'' \<and> extension (file_name f) \<noteq> ''csv'' \<longrightarrow>
      handleFileUpload ns jp pp (Some f) st =
        st\<lparr>errors := [''Unsupported file type. Please use JSON or CSV.'']\<rparr>"
    by (simp add: handleFileUpload_def)
  have b: "extension (file_name f) = ''json''
        \<and> (jp (file_text f) = None \<or> jp (file_text f) = Some JNull) \<longrightarrow>
      handleFileUpload ns jp pp (Some f) st = st\<lparr>errors := [''Invalid JSON file format'']\<rparr>"
    by (auto simp: handleFileUpload_def onload_def jsonImport_def)
  have c: "extension (file_name f) = ''json'' \<and> jp (file_text f) = Some (JObj kvs)
        \<and> (\<forall>k\<in>set (map fst kvs). k \<notin> set Object_prototype_keys)
        \<and> (\<exists>(k, v)\<in>set kvs. k \<in> set schema_keys \<and> unprintable v) \<longrightarrow>
      handleFileUpload ns jp pp (Some f) st = st\<lparr>errors := [''Invalid JSON file format'']\<rparr>"
    using json_import_rejects[of f jp kvs ns pp st] by blast
  have d: "extension (file_name f) = ''json'' \<and> jp (file_text f) = Some (JObj kvs)
        \<and> (\<forall>k\<in>set (map fst kvs). k \<notin> set Object_prototype_keys)
        \<and> \<not> (\<exists>(k, v)\<in>set kvs. k \<in> set schema_keys \<and> unprintable v) \<longrightarrow>
      (\<exists>md. mapJson ns kvs initialData = Some md
         \<and> handleFileUpload ns jp pp (Some f) st = st\<lparr>formData := md, errors := []\<rparr>)"
    using json_import_accepts[of f jp kvs ns pp st] by blast
  have e: "extension (file_name f) = ''json''
        \<and> ((\<exists>b. jp (file_text f) = Some (JBool b)) \<or> (\<exists>n. jp (file_text f) = Some (JNum n))
            \<or> (\<exists>s. jp (file_text f) = Some (JStr s)) \<or> (\<exists>xs. jp (file_text f) = Some (JArr xs)))
        \<longrightarrow>
      handleFileUpload ns jp pp (Some f) st = st\<lparr>formData := initialData, errors := []\<rparr>"
    by (auto simp: handleFileUpload_def onload_def jsonImport_non_object)
  have g: "extension (file_name f) = ''csv'' \<and> pp (file_text f) = Failed \<longrightarrow>
      handleFileUpload ns jp pp (Some f) st = st\<lparr>errors := [''Error parsing CSV file'']\<rparr>"
    by (simp add: handleFileUpload_def parse_error_def)
  have h: "extension (file_name f) = ''csv'' \<and> pp (file_text f) = Complete [] parse_errors \<longrightarrow>
      handleFileUpload ns jp pp (Some f) st = st\<lparr>errors := [''CSV file is empty or invalid'']\<rparr>"
    by (simp add: handleFileUpload_def complete_def)
  have i: "extension (file_name f) = ''csv'' \<and> pp (file_text f) = Complete (row # later) parse_errors
        \<longrightarrow>
      handleFileUpload ns jp pp (Some f) st = st\<lparr>formData := mapRow row initialData, errors := []\<rparr>"
    by (simp add: handleFileUpload_def complete_def)
  note j = handleFileUpload_outcome_for_all_states[of f ns jp pp]
  from a b c d e g h i j show ?thesis by blast
qed

lemma extension_gauge_csv: "extension ''gauge.csv'' = ''csv''"
  by (simp add: extension_def toLowerCase_def toLowerChar_def)

theorem import_fails_or_replaces_witness:
  "extension ''notes.txt'' \<noteq> ''json'' \<and> extension ''notes.txt'' \<noteq> ''csv''
   \<and> handleFileUpload decimal (\<lambda>text. None) (\<lambda>text. Failed)
        (Some \<lparr>file_name = ''notes.txt'', file_text = ''elevation 120''\<rparr>)
        (initialState\<lparr>formData := AList.update ''elevation'' ''120'' initialData,
                       errors := [''temperature is required'', ''land use is required'']\<rparr>)
      = initialState\<lparr>formData := AList.update ''elevation'' ''120'' initialData,
                      errors := [''Unsupported file type. Please use JSON or CSV.'']\<rparr>
   \<and> extension ''gauge.csv'' = ''csv''
   \<and> handleFileUpload decimal (\<lambda>text. None) (\<lambda>text. Complete [] [])
        (Some \<lparr>file_name = ''gauge.csv'', file_text = ''elevation,slope''\<rparr>)
        (initialState\<lparr>formData := AList.update ''elevation'' ''120'' initialData\<rparr>)
      = initialState\<lparr>formData := AList.update ''elevation'' ''120'' initialData,
                      errors := [''CSV file is empty or invalid'']\<rparr>"
proof -
  let ?st1 = "initialState\<lparr>formData := AList.update ''elevation'' ''120'' initialData,
                       errors := [''temperature is required'', ''land use is required'']\<rparr>"
  let ?st2 = "initialState\<lparr>formData := AList.update ''elevation'' ''120'' initialData\<rparr>"
  let ?f1 = "\<lparr>file_name = ''notes.txt'', file_text = ''elevation 120''\<rparr>"
  let ?f2 = "\<lparr>file_name = ''gauge.csv'', file_text = ''elevation,slope''\<rparr>"
  let ?none = "\<lambda>text::string. (None :: nat jsvalue option)"
  have t: "extension ''notes.txt'' \<noteq> ''json'' \<and> extension ''notes.txt'' \<noteq> ''csv''"
    by (simp add: extension_notes_txt)
  have a: "handleFileUpload decimal ?none (\<lambda>text. Failed) (Some ?f1) ?st1
      = ?st1\<lparr>errors := [''Unsupported file type. Please use JSON or CSV.'']\<rparr>"
    using import_fails_or_replaces[where f="?f1" and ns=decimal and jp="?none"
        and pp="\<lambda>text. Failed" and st="?st1", THEN conjunct1] t
    by simp
  have b: "handleFileUpload decimal ?none (\<lambda>text. Complete [] []) (Some ?f2) ?st2
      = ?st2\<lparr>errors := [''CSV file is empty or invalid'']\<rparr>"
    using import_fails_or_replaces[where f="?f2" and ns=decimal and jp="?none"
        and pp="\<lambda>text. Complete [] []" and st="?st2" and parse_errors="[]",
        THEN conjunct2, THEN conjunct2, THEN conjunct2, THEN conjunct2, THEN conjunct2,
        THEN conjunct2, THEN conjunct1]
      extension_gauge_csv
    by simp
  show ?thesis
    using t a b extension_gauge_csv by simp
qed

text \<open>
  C3 as stated fails on a malformed CSV file that still has a data row. The header has one
  column and the row two cells, so PapaParse lists the error TooManyFields; the import
  nevertheless succeeds: the form data is replaced from the row and the error list is
  emptied.
\<close>

theorem malformed_csv_with_data_row_imported:
  "extension ''gauge.csv'' = ''csv''
   \<and> handleFileUpload decimal (\<lambda>text. None)
        (\<lambda>text. Complete [[(''elevation'', Cell ''120''), (''__parsed_extra'', ParsedExtra [''7''])]]
                   [''TooManyFields''])
        (Some \<lparr>file_name = ''gauge.csv'', file_text = ''elevation'' @ CHR 0x0A # ''120,7''\<rparr>)
        (initialState\<lparr>errors := [''elevation is required'']\<rparr>)
      = initialState\<lparr>formData := AList.update ''elevation'' ''120'' initialData, errors := []\<rparr>
   \<and> AList.update ''elevation'' ''120'' initialData \<noteq> initialData"
proof -
  have i: "js_in ''elevation'' initialData" and n: "\<not> js_in ''__parsed_extra'' initialData"
    by (simp_all add: js_in_def initialData_def Object_prototype_keys_def)
  have r: "mapRow [(''elevation'', Cell ''120''), (''__parsed_extra'', ParsedExtra [''7''])] initialData
      = AList.update ''elevation'' ''120'' initialData"
    by (simp add: i n js_set_def)
  have c: "complete [[(''elevation'', Cell ''120''), (''__parsed_extra'', ParsedExtra [''7''])]]
        (initialState\<lparr>errors := [''elevation is required'']\<rparr>)
      = initialState\<lparr>formData := AList.update ''elevation'' ''120'' initialData, errors := []\<rparr>"
    by (simp only: complete_def list.case r) simp
  have h: "handleFileUpload decimal (\<lambda>text. None)
        (\<lambda>text. Complete [[(''elevation'', Cell ''120''), (''__parsed_extra'', ParsedExtra [''7''])]]
                   [''TooManyFields''])
        (Some \<lparr>file_name = ''gauge.csv'', file_text = ''elevation'' @ CHR 0x0A # ''120,7''\<rparr>)
        (initialState\<lparr>errors := [''elevation is required'']\<rparr>)
      = complete [[(''elevation'', Cell ''120''), (''__parsed_extra'', ParsedExtra [''7''])]]
        (initialState\<lparr>errors := [''elevation is required'']\<rparr>)"
    by (simp only: handleFileUpload_def option.case File.simps extension_gauge_csv) simp
  have d: "AList.update ''elevation'' ''120'' initialData \<noteq> initialData"
    by (simp add: initialData_def)
  show ?thesis
    using h c d extension_gauge_csv by simp
qed

end
